theory Spec2Isabelle
  imports Main "HOL-Library.Word"
begin

unbundle bit_operations_syntax

section \<open>Thrustmaster T500RS force-feedback driver: encoder, sender and scheduler\<close>

text \<open>
  A shallow embedding of the driver core (the C file with \<open>t500rs_upload_effect\<close>,
  \<open>t500rs_upload_combined\<close>, \<open>t500rs_upload_weight\<close>, \<open>t500rs_send_effect\<close>,
  \<open>t500rs_timer_helper\<close>, \<open>t500rs_upload\<close> and \<open>t500rs_play\<close>). C integers are words of
  their width, return codes are \<open>int\<close> (0 is success, errors are negative), arrays are
  lists, pointers that may be NULL are options, and every mutation of the device
  entry or of the outside world is passed on explicitly.
\<close>

subsection \<open>Machine types and constants\<close>

type_synonym u8 = "8 word"
type_synonym u16 = "16 word"
type_synonym s16 = "16 word"
type_synonym ulong = "64 word"

definition EINVAL :: int where "EINVAL = 22"
definition ENOMEM :: int where "ENOMEM = 12"

text \<open>Constants of the driver header \<open>hid-tmt500rs.h\<close>.\<close>

definition T500RS_MAX_EFFECTS :: nat where "T500RS_MAX_EFFECTS = 16"

definition T500RS_CMD_UPLOAD_EFFECT :: u8 where "T500RS_CMD_UPLOAD_EFFECT = 0x01"
definition T500RS_CMD_SET_ENVELOPE :: u8 where "T500RS_CMD_SET_ENVELOPE = 0x02"
definition T500RS_CMD_SET_CONSTANT :: u8 where "T500RS_CMD_SET_CONSTANT = 0x03"
definition T500RS_CMD_SET_PERIODIC :: u8 where "T500RS_CMD_SET_PERIODIC = 0x04"
definition T500RS_CMD_SET_CONDITION :: u8 where "T500RS_CMD_SET_CONDITION = 0x05"

definition T500RS_EFFECT_CONSTANT :: u8 where "T500RS_EFFECT_CONSTANT = 0x00"
definition T500RS_EFFECT_SPRING :: u8 where "T500RS_EFFECT_SPRING = 0x40"
definition T500RS_EFFECT_SQUARE :: u8 where "T500RS_EFFECT_SQUARE = 0x20"
definition T500RS_EFFECT_TRIANGLE :: u8 where "T500RS_EFFECT_TRIANGLE = 0x21"
definition T500RS_EFFECT_SINE :: u8 where "T500RS_EFFECT_SINE = 0x22"
definition T500RS_EFFECT_SAWTOOTH_UP :: u8 where "T500RS_EFFECT_SAWTOOTH_UP = 0x23"
definition T500RS_EFFECT_SAWTOOTH_DOWN :: u8 where "T500RS_EFFECT_SAWTOOTH_DOWN = 0x24"
definition T500RS_EFFECT_RAMP :: u8 where "T500RS_EFFECT_RAMP = 0x24"
definition T500RS_EFFECT_AUTOCENTER :: u8 where "T500RS_EFFECT_AUTOCENTER = 0x06"
definition T500RS_EFFECT_FRICTION_2 :: u8 where "T500RS_EFFECT_FRICTION_2 = 0x0c"
definition T500RS_EFFECT_DAMPER_2 :: u8 where "T500RS_EFFECT_DAMPER_2 = 0x0d"
definition T500RS_EFFECT_COMBINE :: u8 where "T500RS_EFFECT_COMBINE = 0x0f"
definition T500RS_EFFECT_INERTIA :: u8 where "T500RS_EFFECT_INERTIA = 0x41"

text \<open>Bit numbers of the per-slot flag word.\<close>

definition FF_EFFECT_QUEUE_UPLOAD :: nat where "FF_EFFECT_QUEUE_UPLOAD = 0"
definition FF_EFFECT_QUEUE_START :: nat where "FF_EFFECT_QUEUE_START = 1"
definition FF_EFFECT_QUEUE_STOP :: nat where "FF_EFFECT_QUEUE_STOP = 2"
definition FF_EFFECT_PLAYING :: nat where "FF_EFFECT_PLAYING = 3"
definition FF_EFFECT_QUEUE_UPDATE :: nat where "FF_EFFECT_QUEUE_UPDATE = 4"

text \<open>Effect type codes of the Linux input interface (\<open>linux/input.h\<close>).\<close>

definition FF_PERIODIC :: u16 where "FF_PERIODIC = 0x51"
definition FF_CONSTANT :: u16 where "FF_CONSTANT = 0x52"
definition FF_SPRING :: u16 where "FF_SPRING = 0x53"
definition FF_FRICTION :: u16 where "FF_FRICTION = 0x54"
definition FF_DAMPER :: u16 where "FF_DAMPER = 0x55"
definition FF_INERTIA :: u16 where "FF_INERTIA = 0x56"
definition FF_RAMP :: u16 where "FF_RAMP = 0x57"
definition FF_SQUARE :: u16 where "FF_SQUARE = 0x58"
definition FF_TRIANGLE :: u16 where "FF_TRIANGLE = 0x59"
definition FF_SINE :: u16 where "FF_SINE = 0x5a"
definition FF_SAW_UP :: u16 where "FF_SAW_UP = 0x5b"
definition FF_SAW_DOWN :: u16 where "FF_SAW_DOWN = 0x5c"

text \<open>
  Modelled from the spec: the declaration of \<open>T500RS_MAX_COMBINED_EFFECTS\<close> is not among
  the sources; the specification gives the fixed maximum of constituents as 16.
\<close>

definition T500RS_MAX_COMBINED_EFFECTS :: nat where "T500RS_MAX_COMBINED_EFFECTS = 16"

subsection \<open>The generic effect descriptor\<close>

text \<open>
  \<open>struct ff_effect\<close> of the input interface. The C union \<open>u\<close> is kept as one field per
  member: the driver reads only the member that belongs to the effect type and copies
  descriptors whole, so no claim depends on the members sharing storage.
\<close>

record ff_envelope =
  attack_length :: u16
  attack_level :: u16
  fade_length :: u16
  fade_level :: u16

record ff_constant_effect =
  level :: s16
  constant_envelope :: ff_envelope

record ff_ramp_effect =
  start_level :: s16
  end_level :: s16
  ramp_envelope :: ff_envelope

record ff_periodic_effect =
  waveform :: u16
  period :: u16
  magnitude :: s16
  offset :: s16
  phase :: u16
  periodic_envelope :: ff_envelope

record ff_condition_effect =
  right_saturation :: u16
  left_saturation :: u16
  right_coeff :: s16
  left_coeff :: s16
  deadband :: u16
  center :: s16

record ff_effect =
  type :: u16
  ff_id :: s16
  direction :: u16
  replay_length :: u16
  replay_delay :: u16
  u_constant :: ff_constant_effect
  u_ramp :: ff_ramp_effect
  u_periodic :: ff_periodic_effect
  u_condition0 :: ff_condition_effect

subsection \<open>Driver state\<close>

text \<open>
  The combined-effect record. Its declaration is not among the sources; the fields are
  the ones the driver code reads and writes, with the 8-bit element type of the wire
  format (the test utility's \<open>struct t500rs_combined_effect\<close> declares the same arrays
  as \<open>uint8_t[16]\<close>). Reading an array beyond its end is undefined in C; where a
  property depends on what is read, it assumes the index within the array.
\<close>

record t500rs_combined_effect =
  num_effects :: u8
  effect_ids :: "u8 list"
  weights :: "u8 list"
  dynamic_weights :: bool
  min_weights :: "u8 list"
  max_weights :: "u8 list"

record t500rs_weight_update =
  effect_id :: u8
  new_weight :: u8
  smooth_transition :: bool
  transition_steps :: u8

record t500rs_effect_state =
  effect :: ff_effect
  old :: ff_effect
  flags :: ulong
  start_time :: ulong
  count :: ulong
  combined :: "t500rs_combined_effect option"

text \<open>
  Constants and tables that the driver code uses and whose declarations are not among
  the sources are parameters: the command header \<open>t500rs_cmd_header\<close> (its length is
  \<open>T500RS_CMD_HEADER_SIZE\<close>), the command identifiers \<open>T500RS_CMD_UPDATE\<close>,
  \<open>T500RS_CMD_PLAY\<close>, \<open>T500RS_CMD_STOP\<close>, \<open>T500RS_CMD_SET_RAMP\<close>, the code
  \<open>T500RS_WEIGHT_UPDATE\<close>, and the payload of the duration command.
\<close>

record t500rs_consts =
  t500rs_cmd_header :: "u8 list"
  T500RS_CMD_UPDATE :: u8
  T500RS_CMD_PLAY :: u8
  T500RS_CMD_STOP :: u8
  T500RS_WEIGHT_UPDATE :: u8
  T500RS_CMD_SET_RAMP :: u8
  duration_params :: "ff_effect \<Rightarrow> u8 list"

definition T500RS_CMD_HEADER_SIZE :: "t500rs_consts \<Rightarrow> nat" where
  "T500RS_CMD_HEADER_SIZE K = length (t500rs_cmd_header K)"

subsection \<open>The outside world and the transport sender\<close>

text \<open>
  What a call of \<open>t500rs_send_effect\<close> meets outside the driver: whether \<open>kzalloc\<close>
  returns a buffer, whether \<open>t500rs_get_device\<close> finds the device entry, and whether the
  HID layer delivers the report. The world holds the outcomes of the calls to come (a
  call past the end of the list meets success) and the buffers handed to
  \<open>hid_hw_request\<close> so far, oldest first. The fixed-length copy of the buffer into the
  report field is not part of the model: the log holds the command buffer itself.
\<close>

datatype send_outcome =
  Outcome (kzalloc_ok: bool) (get_device_ok: bool) (hid_delivered: bool)

record world =
  outcomes :: "send_outcome list"
  sent :: "u8 list list"

definition next_outcome :: "world \<Rightarrow> send_outcome" where
  "next_outcome w = (case outcomes w of [] \<Rightarrow> Outcome True True True | e # _ \<Rightarrow> e)"

definition t500rs_send_int :: "send_outcome \<Rightarrow> world \<Rightarrow> u8 list \<Rightarrow> world \<times> int" where
  "t500rs_send_int e w send_buffer =
     (if \<not> get_device_ok e then (w, - 1)
      else (w\<lparr>sent := sent w @ [send_buffer]\<rparr>, 0))"

definition t500rs_send_effect ::
  "t500rs_consts \<Rightarrow> world \<Rightarrow> u8 \<Rightarrow> u8 list \<Rightarrow> nat \<Rightarrow> world \<times> int" where
  "t500rs_send_effect K w command_id params params_size =
     (let e = next_outcome w;
          w1 = w\<lparr>outcomes := tl (outcomes w)\<rparr>
      in if \<not> kzalloc_ok e then (w1, - ENOMEM)
         else t500rs_send_int e w1 (t500rs_cmd_header K @ take params_size params))"

subsection \<open>Combined effects\<close>

definition pack_effect :: "t500rs_combined_effect \<Rightarrow> nat \<Rightarrow> u8 list \<Rightarrow> u8 list" where
  "pack_effect c i params =
     (let p1 = params[8 + i * 3 := effect_ids c ! i];
          p2 = p1[9 + i * 3 := weights c ! i]
      in if dynamic_weights c
         then p2[10 + i * 3 := (min_weights c ! i AND 0xF0) OR (drop_bit 4 (max_weights c ! i) AND 0x0F)]
         else p2)"

definition combined_header :: "t500rs_combined_effect \<Rightarrow> u8 list" where
  "combined_header c =
     [T500RS_EFFECT_COMBINE, 0x00, 0x00, 0x00, 0x05, 0x0e, num_effects c,
      if dynamic_weights c then 0x01 else 0x00]"

definition combined_params :: "t500rs_combined_effect \<Rightarrow> u8 list" where
  "combined_params c =
     fold (pack_effect c) [0 ..< unat (num_effects c)]
       (combined_header c @ replicate (T500RS_MAX_COMBINED_EFFECTS * 3) 0)"

definition combined_params_size :: "t500rs_combined_effect \<Rightarrow> nat" where
  "combined_params_size c = 8 + unat (num_effects c) * (if dynamic_weights c then 3 else 2)"

text \<open>The bytes of \<open>params\<close> that the sender copies behind the command header.\<close>

definition combined_payload :: "t500rs_combined_effect \<Rightarrow> u8 list" where
  "combined_payload c = take (combined_params_size c) (combined_params c)"

definition t500rs_upload_combined ::
  "t500rs_consts \<Rightarrow> world \<Rightarrow> t500rs_effect_state \<Rightarrow> world \<times> int" where
  "t500rs_upload_combined K w state =
     (case combined state of
        None \<Rightarrow> (w, - EINVAL)
      | Some c \<Rightarrow>
          if num_effects c = 0 \<or> unat (num_effects c) > T500RS_MAX_COMBINED_EFFECTS
          then (w, - EINVAL)
          else t500rs_send_effect K w (T500RS_CMD_UPDATE K)
                 (combined_params c) (combined_params_size c))"

definition find_effect :: "t500rs_combined_effect \<Rightarrow> u8 \<Rightarrow> nat option" where
  "find_effect c eid = find (\<lambda>i. effect_ids c ! i = eid) [0 ..< unat (num_effects c)]"

definition weight_params :: "t500rs_consts \<Rightarrow> t500rs_weight_update \<Rightarrow> u8 list" where
  "weight_params K update =
     [T500RS_WEIGHT_UPDATE K, 0x00, 0x00, 0x00, effect_id update, new_weight update,
      if smooth_transition update then transition_steps update else 0, 0x00]"

definition t500rs_upload_weight ::
  "t500rs_consts \<Rightarrow> world \<Rightarrow> t500rs_effect_state \<Rightarrow> t500rs_weight_update
     \<Rightarrow> world \<times> t500rs_effect_state \<times> int" where
  "t500rs_upload_weight K w state update =
     (case combined state of
        None \<Rightarrow> (w, state, - EINVAL)
      | Some c \<Rightarrow>
          if \<not> dynamic_weights c then (w, state, - EINVAL)
          else (case find_effect c (effect_id update) of
              None \<Rightarrow> (w, state, - EINVAL)
            | Some found \<Rightarrow>
                if new_weight update < min_weights c ! found \<or>
                   new_weight update > max_weights c ! found
                then (w, state, - EINVAL)
                else
                  let state' = state\<lparr>combined :=
                        Some (c\<lparr>weights := (weights c)[found := new_weight update]\<rparr>)\<rparr>;
                      (w', ret) = t500rs_send_effect K w (T500RS_CMD_UPDATE K)
                                    (weight_params K update) 8
                  in (w', state', ret)))"

subsection \<open>Encoders of the simple effects\<close>

definition envelope_params :: "u8 list" where
  "envelope_params =
     [T500RS_CMD_SET_ENVELOPE, 0x1c, 0x00, 0x00, 0x00, 0x00, 0x00, 0x00, 0x00]"

definition upload_params :: "u8 \<Rightarrow> u8 list" where
  "upload_params effect_type =
     [T500RS_CMD_UPLOAD_EFFECT, 0x00, effect_type, 0x40, 0x17, 0x25, 0x00, 0xff, 0xff,
      0x0e, 0x00, 0x1c, 0x00]"

definition constant_params :: "t500rs_effect_state \<Rightarrow> u8 list" where
  "constant_params state =
     [T500RS_CMD_SET_CONSTANT, 0x0e, 0x00, ucast (level (u_constant (effect state)))]"

definition t500rs_upload_constant ::
  "t500rs_consts \<Rightarrow> world \<Rightarrow> t500rs_effect_state \<Rightarrow> world \<times> int" where
  "t500rs_upload_constant K w state =
     (let (w1, ret) = t500rs_send_effect K w T500RS_CMD_SET_ENVELOPE envelope_params 9
      in if ret < 0 then (w1, ret)
         else
           let (w2, ret) = t500rs_send_effect K w1 T500RS_CMD_SET_CONSTANT
                             (constant_params state) 4
           in if ret < 0 then (w2, ret)
              else t500rs_send_effect K w2 T500RS_CMD_UPLOAD_EFFECT
                     (upload_params T500RS_EFFECT_CONSTANT) 13)"

definition ramp_params :: "t500rs_consts \<Rightarrow> t500rs_effect_state \<Rightarrow> u8 list" where
  "ramp_params K state =
     [T500RS_CMD_SET_RAMP K, 0x0e, 0x00, ucast (start_level (u_ramp (effect state))),
      ucast (end_level (u_ramp (effect state)))]"

definition t500rs_upload_ramp ::
  "t500rs_consts \<Rightarrow> world \<Rightarrow> t500rs_effect_state \<Rightarrow> world \<times> int" where
  "t500rs_upload_ramp K w state =
     (let (w1, ret) = t500rs_send_effect K w T500RS_CMD_SET_ENVELOPE envelope_params 9
      in if ret < 0 then (w1, ret)
         else
           let (w2, ret) = t500rs_send_effect K w1 (T500RS_CMD_SET_RAMP K)
                             (ramp_params K state) 5
           in if ret < 0 then (w2, ret)
              else t500rs_send_effect K w2 T500RS_CMD_UPLOAD_EFFECT
                     (upload_params T500RS_EFFECT_RAMP) 13)"

definition periodic_waveform :: "u16 \<Rightarrow> u8 option" where
  "periodic_waveform t =
     (if t = FF_SINE then Some T500RS_EFFECT_SINE
      else if t = FF_SQUARE then Some T500RS_EFFECT_SQUARE
      else if t = FF_TRIANGLE then Some T500RS_EFFECT_TRIANGLE
      else if t = FF_SAW_UP then Some T500RS_EFFECT_SAWTOOTH_UP
      else if t = FF_SAW_DOWN then Some T500RS_EFFECT_SAWTOOTH_DOWN
      else None)"

definition periodic_params :: "u8 list" where
  "periodic_params = [T500RS_CMD_SET_PERIODIC, 0x0e, 0x00, 0x00, 0x00, 0x00, 0xe8, 0x03]"

definition t500rs_upload_periodic ::
  "t500rs_consts \<Rightarrow> world \<Rightarrow> t500rs_effect_state \<Rightarrow> world \<times> int" where
  "t500rs_upload_periodic K w state =
     (case periodic_waveform (type (effect state)) of
        None \<Rightarrow> (w, - EINVAL)
      | Some wave \<Rightarrow>
          let (w1, ret) = t500rs_send_effect K w T500RS_CMD_SET_ENVELOPE envelope_params 9
          in if ret < 0 then (w1, ret)
             else
               let (w2, ret) = t500rs_send_effect K w1 T500RS_CMD_SET_PERIODIC
                                 periodic_params 8
               in if ret < 0 then (w2, ret)
                  else t500rs_send_effect K w2 T500RS_CMD_UPLOAD_EFFECT
                         (upload_params wave) 13)"

definition condition_params :: "u8 list" where
  "condition_params =
     [T500RS_CMD_SET_CONDITION, 0x0e, 0x00, 0x64, 0x64, 0x00, 0x00, 0x00, 0x00, 0x64, 0x64]"

definition t500rs_upload_condition ::
  "t500rs_consts \<Rightarrow> world \<Rightarrow> t500rs_effect_state \<Rightarrow> u8 \<Rightarrow> world \<times> int" where
  "t500rs_upload_condition K w state effect_type =
     (let (w1, ret) = t500rs_send_effect K w T500RS_CMD_SET_CONDITION condition_params 11
      in if ret < 0 then (w1, ret)
         else
           let (w2, ret) = t500rs_send_effect K w1 T500RS_CMD_SET_ENVELOPE envelope_params 9
           in if ret < 0 then (w2, ret)
              else t500rs_send_effect K w2 T500RS_CMD_UPLOAD_EFFECT
                     (upload_params effect_type) 13)"

text \<open>
  The signed coefficients are shifted arithmetically and the unsigned ones logically,
  then stored into 8-bit fields.
\<close>

definition condition_extended_params :: "t500rs_effect_state \<Rightarrow> u8 \<Rightarrow> u8 list" where
  "condition_extended_params state effect_type =
     (let c = u_condition0 (effect state);
          velocity_factor = (if effect_type = T500RS_EFFECT_DAMPER_2 then 0x64
                             else if effect_type = T500RS_EFFECT_FRICTION_2 then 0x32 else 0);
          acceleration_factor = (if effect_type = T500RS_EFFECT_DAMPER_2 then 0x32 else 0);
          position_factor = (if effect_type = T500RS_EFFECT_DAMPER_2 then 0
                             else if effect_type = T500RS_EFFECT_FRICTION_2 then 0x64 else 0)
      in [effect_type, 0x00, 0x00, 0x00, 0x05, 0x0e,
          ucast (signed_drop_bit 8 (right_coeff c)),
          ucast (signed_drop_bit 8 (left_coeff c)),
          ucast (drop_bit 9 (right_saturation c)),
          ucast (drop_bit 9 (left_saturation c)),
          ucast (drop_bit 9 (deadband c)),
          ucast (signed_drop_bit 9 (center c)),
          velocity_factor, acceleration_factor, position_factor])"

definition t500rs_upload_condition_extended ::
  "t500rs_consts \<Rightarrow> world \<Rightarrow> t500rs_effect_state \<Rightarrow> u8 \<Rightarrow> world \<times> int" where
  "t500rs_upload_condition_extended K w state effect_type =
     t500rs_send_effect K w (T500RS_CMD_UPDATE K)
       (condition_extended_params state effect_type) 15"

record t500rs_inertia =
  strength :: u8
  damping :: u8
  resistance :: u8

definition t500rs_upload_inertia ::
  "t500rs_consts \<Rightarrow> world \<Rightarrow> t500rs_inertia \<Rightarrow> world \<times> int" where
  "t500rs_upload_inertia K w params =
     t500rs_send_effect K w (T500RS_CMD_UPDATE K)
       [T500RS_EFFECT_INERTIA, 0x00, 0x00, 0x00, 0x03, 0x0e, strength params, damping params] 8"

definition t500rs_upload_envelope ::
  "t500rs_consts \<Rightarrow> world \<Rightarrow> t500rs_effect_state \<Rightarrow> world \<times> int" where
  "t500rs_upload_envelope K w state =
     (let (w1, ret) = t500rs_send_effect K w T500RS_CMD_SET_ENVELOPE envelope_params 9
      in if ret < 0 then (w1, ret)
         else t500rs_send_effect K w1 T500RS_CMD_UPLOAD_EFFECT
                (upload_params (ucast (type (effect state)))) 13)"

text \<open>
  Modelled from the spec: \<open>t500rs_modify_duration\<close> is called by the driver and is not
  among the sources. The specification describes it as one further send, made only
  when the descriptor's length is not zero; its payload is the parameter
  \<open>duration_params\<close>. The sender does not use the command identifier.
\<close>

definition t500rs_modify_duration ::
  "t500rs_consts \<Rightarrow> world \<Rightarrow> t500rs_effect_state \<Rightarrow> world \<times> int" where
  "t500rs_modify_duration K w state =
     t500rs_send_effect K w (T500RS_CMD_UPDATE K) (duration_params K (effect state))
       (length (duration_params K (effect state)))"

text \<open>
  The \<open>switch\<close> of \<open>t500rs_upload_effect\<close>: \<open>Inl ret\<close> is a \<open>return ret\<close> from inside the
  switch, \<open>Inr ret\<close> a \<open>break\<close> with the value of \<open>ret\<close>.
\<close>

definition upload_envelope_if_set ::
  "t500rs_consts \<Rightarrow> ff_envelope \<Rightarrow> t500rs_effect_state \<Rightarrow> world \<times> int \<Rightarrow> world \<times> (int + int)" where
  "upload_envelope_if_set K env state r =
     (case r of (w1, ret) \<Rightarrow>
        if ret \<noteq> 0 then (w1, Inl ret)
        else if attack_length env \<noteq> 0 \<or> fade_length env \<noteq> 0
        then (let (w2, ret2) = t500rs_upload_envelope K w1 state
              in if ret2 \<noteq> 0 then (w2, Inl ret2) else (w2, Inr ret2))
        else (w1, Inr ret))"

definition upload_switch ::
  "t500rs_consts \<Rightarrow> world \<Rightarrow> t500rs_effect_state \<Rightarrow> world \<times> (int + int)" where
  "upload_switch K w state =
     (let e = effect state; t = type e
      in if t = FF_CONSTANT then
           upload_envelope_if_set K (constant_envelope (u_constant e)) state
             (t500rs_upload_constant K w state)
         else if t = FF_RAMP then
           upload_envelope_if_set K (ramp_envelope (u_ramp e)) state
             (t500rs_upload_ramp K w state)
         else if t = FF_SPRING then
           map_prod (\<lambda>w. w) Inr (t500rs_upload_condition K w state T500RS_EFFECT_SPRING)
         else if t = FF_DAMPER then
           map_prod (\<lambda>w. w) Inr
             (t500rs_upload_condition_extended K w state T500RS_EFFECT_DAMPER_2)
         else if t = FF_FRICTION then
           map_prod (\<lambda>w. w) Inr
             (t500rs_upload_condition_extended K w state T500RS_EFFECT_FRICTION_2)
         else if t = FF_INERTIA then
           map_prod (\<lambda>w. w) Inr
             (t500rs_upload_inertia K w
                \<lparr>strength = ucast (signed_drop_bit 8 (right_coeff (u_condition0 e))),
                 damping = ucast (signed_drop_bit 8 (left_coeff (u_condition0 e))),
                 resistance = ucast (signed_drop_bit 8 (center (u_condition0 e)))\<rparr>)
         else if t = FF_PERIODIC then
           map_prod (\<lambda>w. w) Inr (t500rs_upload_periodic K w state)
         else (w, Inl (- EINVAL)))"

definition t500rs_upload_effect ::
  "t500rs_consts \<Rightarrow> world \<Rightarrow> t500rs_effect_state \<Rightarrow> world \<times> int" where
  "t500rs_upload_effect K w state =
     (if combined state \<noteq> None then t500rs_upload_combined K w state
      else case upload_switch K w state of
          (w1, Inl ret) \<Rightarrow> (w1, ret)
        | (w1, Inr ret) \<Rightarrow>
            if replay_length (effect state) \<noteq> 0 then t500rs_modify_duration K w1 state
            else (w1, ret))"

subsection \<open>Playback commands\<close>

definition play_params :: "t500rs_consts \<Rightarrow> u8 list" where
  "play_params K =
     [T500RS_EFFECT_CONSTANT, 0x00, 0x00, 0x00, T500RS_CMD_PLAY K, 0x00, 0x41, 0x01]"

definition stop_params :: "t500rs_consts \<Rightarrow> u8 list" where
  "stop_params K =
     [T500RS_EFFECT_CONSTANT, 0x00, 0x00, 0x00, T500RS_CMD_PLAY K, 0x00, 0x00, 0x01]"

definition t500rs_play_effect ::
  "t500rs_consts \<Rightarrow> world \<Rightarrow> t500rs_effect_state \<Rightarrow> world \<times> int" where
  "t500rs_play_effect K w state = t500rs_send_effect K w (T500RS_CMD_PLAY K) (play_params K) 8"

definition t500rs_stop_effect ::
  "t500rs_consts \<Rightarrow> world \<Rightarrow> t500rs_effect_state \<Rightarrow> world \<times> int" where
  "t500rs_stop_effect K w state = t500rs_send_effect K w (T500RS_CMD_STOP K) (stop_params K) 8"

subsection \<open>The scheduler tick\<close>

definition test_bit :: "nat \<Rightarrow> ulong \<Rightarrow> bool" where
  "test_bit nr fl = bit fl nr"

text \<open>The expiry block at the head of the loop body; \<open>now\<close> is \<open>JIFFIES2MS(jiffies)\<close>.\<close>

definition timer_expire :: "ulong \<Rightarrow> t500rs_effect_state \<Rightarrow> t500rs_effect_state" where
  "timer_expire now state =
     (if test_bit FF_EFFECT_PLAYING (flags state) \<and> replay_length (effect state) \<noteq> 0
      then
        if now - start_time state \<ge> ucast (replay_length (effect state))
        then
          let f1 = unset_bit FF_EFFECT_PLAYING (flags state);
              f2 = unset_bit FF_EFFECT_QUEUE_UPDATE f1;
              c = (if count state \<noteq> 0 then count state - 1 else count state);
              f3 = (if c \<noteq> 0 then set_bit FF_EFFECT_QUEUE_START f2 else f2)
          in state\<lparr>flags := f3, count := c\<rparr>
        else state
      else state)"

text \<open>
  The three queue blocks of the loop body. Each returns the world, the slot and the
  value of \<open>ret\<close>; a value other than 0 makes the tick return it.
\<close>

definition timer_upload ::
  "t500rs_consts \<Rightarrow> world \<Rightarrow> t500rs_effect_state \<Rightarrow> world \<times> t500rs_effect_state \<times> int" where
  "timer_upload K w state =
     (if test_bit FF_EFFECT_QUEUE_UPLOAD (flags state)
      then
        let state' = state\<lparr>flags := unset_bit FF_EFFECT_QUEUE_UPLOAD (flags state)\<rparr>;
            (w', ret) = t500rs_upload_effect K w state'
        in (w', state', ret)
      else (w, state, 0))"

definition timer_start ::
  "t500rs_consts \<Rightarrow> world \<Rightarrow> t500rs_effect_state \<Rightarrow> world \<times> t500rs_effect_state \<times> int" where
  "timer_start K w state =
     (if test_bit FF_EFFECT_QUEUE_START (flags state)
      then
        let state' = state\<lparr>flags := set_bit FF_EFFECT_PLAYING
                               (unset_bit FF_EFFECT_QUEUE_START (flags state))\<rparr>;
            (w', ret) = t500rs_play_effect K w state'
        in (w', state', ret)
      else (w, state, 0))"

definition timer_stop ::
  "t500rs_consts \<Rightarrow> world \<Rightarrow> t500rs_effect_state \<Rightarrow> world \<times> t500rs_effect_state \<times> int" where
  "timer_stop K w state =
     (if test_bit FF_EFFECT_QUEUE_STOP (flags state)
      then
        let state' = state\<lparr>flags := unset_bit FF_EFFECT_PLAYING
                               (unset_bit FF_EFFECT_QUEUE_STOP (flags state))\<rparr>;
            (w', ret) = t500rs_stop_effect K w state'
        in (w', state', ret)
      else (w, state, 0))"

text \<open>
  \<open>max_count\<close> is a C \<open>int\<close> and \<open>count\<close> an \<open>unsigned long\<close>: the comparison converts
  \<open>max_count\<close> to \<open>unsigned long\<close>, the assignment truncates \<open>count\<close>.
\<close>

definition update_max_count :: "32 word \<Rightarrow> t500rs_effect_state \<Rightarrow> 32 word" where
  "update_max_count max_count state =
     (if count state > scast max_count then ucast (count state) else max_count)"

text \<open>
  One pass of the loop body over one slot: \<open>Inl ret\<close> when the tick returns \<open>ret\<close> from
  inside the body, \<open>Inr max_count\<close> when the body runs to its end.
\<close>

definition timer_slot ::
  "t500rs_consts \<Rightarrow> ulong \<Rightarrow> world \<Rightarrow> 32 word \<Rightarrow> t500rs_effect_state
     \<Rightarrow> world \<times> t500rs_effect_state \<times> (int + 32 word)" where
  "timer_slot K now w max_count state =
     (let s1 = timer_expire now state;
          (w2, s2, ret) = timer_upload K w s1
      in if ret \<noteq> 0 then (w2, s2, Inl ret)
         else
           let (w3, s3, ret) = timer_start K w2 s2
           in if ret \<noteq> 0 then (w3, s3, Inl ret)
              else
                let (w4, s4, ret) = timer_stop K w3 s3
                in if ret \<noteq> 0 then (w4, s4, Inl ret)
                   else (w4, s4, Inr (update_max_count max_count s4)))"

fun timer_loop ::
  "t500rs_consts \<Rightarrow> ulong \<Rightarrow> world \<Rightarrow> 32 word \<Rightarrow> t500rs_effect_state list
     \<Rightarrow> world \<times> t500rs_effect_state list \<times> (int + 32 word)" where
  "timer_loop K now w max_count [] = (w, [], Inr max_count)"
| "timer_loop K now w max_count (state # rest) =
     (case timer_slot K now w max_count state of
        (w', state', Inl ret) \<Rightarrow> (w', state' # rest, Inl ret)
      | (w', state', Inr max_count') \<Rightarrow>
          (case timer_loop K now w' max_count' rest of
             (w'', rest', r) \<Rightarrow> (w'', state' # rest', r)))"

record t500rs_device_entry =
  states :: "t500rs_effect_state list"
  hrtimer_active :: bool

text \<open>
  The tick visits the slots \<open>0 .. T500RS_MAX_EFFECTS - 1\<close> of the state table in order.
  The result is \<open>Inl ret\<close> for an error return and \<open>Inr max_count\<close> otherwise.
\<close>

definition t500rs_timer_helper ::
  "t500rs_consts \<Rightarrow> ulong \<Rightarrow> world \<Rightarrow> t500rs_device_entry
     \<Rightarrow> world \<times> t500rs_device_entry \<times> (int + int)" where
  "t500rs_timer_helper K now w t500rs =
     (case timer_loop K now w 0 (take T500RS_MAX_EFFECTS (states t500rs)) of
        (w', visited, r) \<Rightarrow>
          (w', t500rs\<lparr>states := visited @ drop T500RS_MAX_EFFECTS (states t500rs)\<rparr>,
           map_sum (\<lambda>ret. ret) sint r))"

subsection \<open>Entry points\<close>

text \<open>
  The result of \<open>t500rs_get_device\<close>, whose definition is not among the sources, is the
  first argument: \<open>None\<close> is the NULL pointer. A slot index outside the table is
  undefined behaviour in C; the model leaves the table as it is. The test
  \<open>&state->effect == 0\<close> of \<open>t500rs_play\<close> compares the address of a member with NULL and
  never holds; starting the timer when it is not active leaves it active.
\<close>

definition t500rs_upload ::
  "t500rs_device_entry option \<Rightarrow> ff_effect \<Rightarrow> ff_effect option
     \<Rightarrow> t500rs_device_entry option \<times> int" where
  "t500rs_upload dev eff old_eff =
     (case dev of
        None \<Rightarrow> (None, - 1)
      | Some t500rs \<Rightarrow>
          if type eff = FF_PERIODIC \<and> period (u_periodic eff) = 0
          then (Some t500rs, - EINVAL)
          else
            let i = unat (ff_id eff);
                state = states t500rs ! i;
                s1 = state\<lparr>effect := eff\<rparr>;
                s2 = (case old_eff of
                        Some oe \<Rightarrow> s1\<lparr>old := oe,
                                       flags := set_bit FF_EFFECT_QUEUE_UPDATE (flags s1)\<rparr>
                      | None \<Rightarrow> s1\<lparr>flags := unset_bit FF_EFFECT_QUEUE_UPDATE (flags s1)\<rparr>);
                s3 = s2\<lparr>flags := set_bit FF_EFFECT_QUEUE_UPLOAD (flags s2)\<rparr>
            in (Some (t500rs\<lparr>states := (states t500rs)[i := s3]\<rparr>), 0))"

definition play_state :: "ulong \<Rightarrow> int \<Rightarrow> t500rs_effect_state \<Rightarrow> t500rs_effect_state" where
  "play_state now val state =
     (if val > 0 then
        let f1 = set_bit FF_EFFECT_QUEUE_START (flags state);
            f2 = (if test_bit FF_EFFECT_QUEUE_STOP f1
                  then unset_bit FF_EFFECT_QUEUE_STOP f1 else f1)
        in state\<lparr>count := word_of_int val, start_time := now, flags := f2\<rparr>
      else state\<lparr>flags := set_bit FF_EFFECT_QUEUE_STOP (flags state)\<rparr>)"

definition t500rs_play ::
  "t500rs_device_entry option \<Rightarrow> ulong \<Rightarrow> nat \<Rightarrow> int
     \<Rightarrow> t500rs_device_entry option \<times> int" where
  "t500rs_play dev now eid val =
     (case dev of
        None \<Rightarrow> (None, - 1)
      | Some t500rs \<Rightarrow>
          (Some (t500rs\<lparr>states := (states t500rs)[eid := play_state now val (states t500rs ! eid)],
                        hrtimer_active := True\<rparr>), 0))"

subsection \<open>Runs of the tick and concrete inputs\<close>

text \<open>
  Worlds in which the next \<open>n\<close> calls of the sender find their allocation and their
  device lookup succeeding, in which every call to come finds the device, and in which
  every call to come finds both.
\<close>

definition sends_ok :: "nat \<Rightarrow> world \<Rightarrow> bool" where
  "sends_ok n w = list_all (\<lambda>e. kzalloc_ok e \<and> get_device_ok e) (take n (outcomes w))"

definition lookups_ok :: "world \<Rightarrow> bool" where
  "lookups_ok w = list_all get_device_ok (outcomes w)"

definition all_ok :: "world \<Rightarrow> bool" where
  "all_ok w = list_all (\<lambda>e. kzalloc_ok e \<and> get_device_ok e) (outcomes w)"

text \<open>
  Return values: success or the allocation error, and these or the error of a
  validation.
\<close>

definition ok_or_nomem :: "int \<Rightarrow> bool" where
  "ok_or_nomem ret = (ret = 0 \<or> ret = - ENOMEM)"

definition ok_or_nomem_or_inval :: "int \<Rightarrow> bool" where
  "ok_or_nomem_or_inval ret = (ret = 0 \<or> ret = - ENOMEM \<or> ret = - EINVAL)"

text \<open>The log of the second world continues the log of the first.\<close>

definition grows :: "world \<Rightarrow> world \<Rightarrow> bool" where
  "grows w w' = (\<exists>more. sent w' = sent w @ more)"

text \<open>
  Successive ticks at the given times, each of which runs to its end; \<open>None\<close> when one
  of them returns an error.
\<close>

fun run_ticks ::
  "t500rs_consts \<Rightarrow> ulong list \<Rightarrow> world \<Rightarrow> t500rs_device_entry
     \<Rightarrow> (world \<times> t500rs_device_entry) option" where
  "run_ticks K [] w t500rs = Some (w, t500rs)"
| "run_ticks K (now # nows) w t500rs =
     (case t500rs_timer_helper K now w t500rs of
        (w', t500rs', Inr max_count) \<Rightarrow> run_ticks K nows w' t500rs'
      | (w', t500rs', Inl ret) \<Rightarrow> None)"

definition ex_consts :: t500rs_consts where
  "ex_consts = \<lparr>t500rs_cmd_header = [0x60, 0x00], T500RS_CMD_UPDATE = 0x05,
     T500RS_CMD_PLAY = 0x41, T500RS_CMD_STOP = 0x41, T500RS_WEIGHT_UPDATE = 0x06,
     T500RS_CMD_SET_RAMP = 0x04, duration_params = (\<lambda>e. [0x49, 0x00])\<rparr>"

definition ex_envelope :: ff_envelope where
  "ex_envelope = \<lparr>attack_length = 0, attack_level = 0, fade_length = 0, fade_level = 0\<rparr>"

definition ex_effect :: ff_effect where
  "ex_effect = \<lparr>type = FF_CONSTANT, ff_id = 0, direction = 0, replay_length = 0,
     replay_delay = 0,
     u_constant = \<lparr>level = 0x40, constant_envelope = ex_envelope\<rparr>,
     u_ramp = \<lparr>start_level = 0, end_level = 0, ramp_envelope = ex_envelope\<rparr>,
     u_periodic = \<lparr>waveform = FF_SINE, period = 0, magnitude = 0, offset = 0, phase = 0,
       periodic_envelope = ex_envelope\<rparr>,
     u_condition0 = \<lparr>right_saturation = 0, left_saturation = 0, right_coeff = 0,
       left_coeff = 0, deadband = 0, center = 0\<rparr>\<rparr>"

definition ex_state :: t500rs_effect_state where
  "ex_state = \<lparr>effect = ex_effect, old = ex_effect, flags = 0, start_time = 0, count = 0,
     combined = None\<rparr>"

definition ex_world :: world where
  "ex_world = \<lparr>outcomes = [], sent = []\<rparr>"

text \<open>A device entry of sixteen slots, the first of which is the given one.\<close>

definition ex_device :: "t500rs_effect_state \<Rightarrow> t500rs_device_entry" where
  "ex_device state = \<lparr>states = state # replicate 15 ex_state, hrtimer_active = True\<rparr>"

definition ex_combined :: "bool \<Rightarrow> t500rs_combined_effect" where
  "ex_combined dyn = \<lparr>num_effects = 2, effect_ids = [1, 2] @ replicate 14 0,
     weights = [10, 20] @ replicate 14 0, dynamic_weights = dyn,
     min_weights = [0x10, 0x20] @ replicate 14 0,
     max_weights = [0xf0, 0xe0] @ replicate 14 0\<rparr>"

section \<open>Properties\<close>

subsection \<open>The transport sender\<close>

lemma send_effect_take:
  "t500rs_send_effect K w cid params n =
     t500rs_send_effect K w cid (take n params) (length (take n params))"
proof -
  have "take (length (take n params)) (take n params) = take n params"
    by (rule take_all) (rule order_refl)
  then show ?thesis
    by (simp only: t500rs_send_effect_def)
qed

lemma send_effect_ok:
  "kzalloc_ok (next_outcome w) \<Longrightarrow> get_device_ok (next_outcome w) \<Longrightarrow>
   t500rs_send_effect K w cid params n =
     (w\<lparr>outcomes := tl (outcomes w), sent := sent w @ [t500rs_cmd_header K @ take n params]\<rparr>, 0)"
  by (simp add: t500rs_send_effect_def t500rs_send_int_def Let_def)

subsection \<open>Size of the combined-effect payload\<close>

lemma length_pack_effect: "length (pack_effect c i p) = length p"
  by (simp add: pack_effect_def Let_def)

lemma length_fold_pack: "length (fold (pack_effect c) is p) = length p"
  by (induction "is" arbitrary: p) (simp_all add: length_pack_effect)

lemma length_combined_params: "length (combined_params c) = 56"
  by (simp add: combined_params_def length_fold_pack combined_header_def
      T500RS_MAX_COMBINED_EFFECTS_def)

lemma length_combined_payload:
  "unat (num_effects c) \<le> T500RS_MAX_COMBINED_EFFECTS \<Longrightarrow>
   length (combined_payload c) = 8 + (if dynamic_weights c then 3 else 2) * unat (num_effects c)"
  by (simp add: combined_payload_def length_combined_params combined_params_size_def
      T500RS_MAX_COMBINED_EFFECTS_def)

lemma ex_payload_dynamic:
  "combined_payload (ex_combined True) = [15, 0, 0, 0, 5, 14, 2, 1, 1, 10, 31, 2, 20, 46]"
  by code_simp

text \<open>
  C5. A combined record with no constituent or with more than
  \<open>T500RS_MAX_COMBINED_EFFECTS\<close> (16) constituents is rejected with \<open>-EINVAL\<close> and the
  world is untouched: no buffer is built and no send is attempted. Otherwise the
  payload handed to the sender has exactly \<open>8 + 2n\<close> bytes without dynamic weights and
  \<open>8 + 3n\<close> bytes with them, and when the allocation and the device lookup succeed the
  one buffer sent is the command header followed by that payload.
\<close>

theorem combined_encoding_size:
  assumes "combined state = Some c"
  shows "(num_effects c = 0 \<or> T500RS_MAX_COMBINED_EFFECTS < unat (num_effects c) \<longrightarrow>
            t500rs_upload_combined K w state = (w, - EINVAL)) \<and>
         (num_effects c \<noteq> 0 \<and> unat (num_effects c) \<le> T500RS_MAX_COMBINED_EFFECTS \<longrightarrow>
            length (combined_payload c) =
              8 + (if dynamic_weights c then 3 else 2) * unat (num_effects c) \<and>
            t500rs_upload_combined K w state =
              t500rs_send_effect K w (T500RS_CMD_UPDATE K) (combined_payload c)
                (length (combined_payload c)) \<and>
            (kzalloc_ok (next_outcome w) \<and> get_device_ok (next_outcome w) \<longrightarrow>
               t500rs_upload_combined K w state =
                 (w\<lparr>outcomes := tl (outcomes w),
                    sent := sent w @ [t500rs_cmd_header K @ combined_payload c]\<rparr>, 0)))"
proof (intro conjI impI)
  assume "num_effects c = 0 \<or> T500RS_MAX_COMBINED_EFFECTS < unat (num_effects c)"
  then show "t500rs_upload_combined K w state = (w, - EINVAL)"
    using assms by (auto simp: t500rs_upload_combined_def)
next
  assume ok: "num_effects c \<noteq> 0 \<and> unat (num_effects c) \<le> T500RS_MAX_COMBINED_EFFECTS"
  then show "length (combined_payload c) =
      8 + (if dynamic_weights c then 3 else 2) * unat (num_effects c)"
    by (simp only: length_combined_payload)
  have up: "t500rs_upload_combined K w state =
      t500rs_send_effect K w (T500RS_CMD_UPDATE K) (combined_params c) (combined_params_size c)"
    using assms ok by (simp add: t500rs_upload_combined_def)
  show "t500rs_upload_combined K w state =
      t500rs_send_effect K w (T500RS_CMD_UPDATE K) (combined_payload c)
        (length (combined_payload c))"
    unfolding up combined_payload_def by (rule send_effect_take)
  assume "kzalloc_ok (next_outcome w) \<and> get_device_ok (next_outcome w)"
  then show "t500rs_upload_combined K w state =
      (w\<lparr>outcomes := tl (outcomes w),
         sent := sent w @ [t500rs_cmd_header K @ combined_payload c]\<rparr>, 0)"
    unfolding up combined_payload_def by (simp add: send_effect_ok)
qed

theorem combined_encoding_size_witness:
  "t500rs_upload_combined ex_consts ex_world
     (ex_state\<lparr>combined := Some ((ex_combined True)\<lparr>num_effects := 17\<rparr>)\<rparr>) = (ex_world, - EINVAL)
   \<and> length (combined_payload (ex_combined True)) = 14
   \<and> t500rs_upload_combined ex_consts ex_world (ex_state\<lparr>combined := Some (ex_combined True)\<rparr>) =
       (\<lparr>outcomes = [],
         sent = [[0x60, 0, 15, 0, 0, 0, 5, 14, 2, 1, 1, 10, 31, 2, 20, 46]]\<rparr>, 0)"
proof -
  have c: "combined (ex_state\<lparr>combined := Some c\<rparr>) = Some c" for c
    by simp
  have n: "num_effects (ex_combined True) = 2" "dynamic_weights (ex_combined True)"
    by (simp_all add: ex_combined_def)
  have many: "num_effects ((ex_combined True)\<lparr>num_effects := 17\<rparr>) = 0 \<or>
      T500RS_MAX_COMBINED_EFFECTS < unat (num_effects ((ex_combined True)\<lparr>num_effects := 17\<rparr>))"
    by (simp add: T500RS_MAX_COMBINED_EFFECTS_def)
  have two: "num_effects (ex_combined True) \<noteq> 0 \<and>
      unat (num_effects (ex_combined True)) \<le> T500RS_MAX_COMBINED_EFFECTS"
    by (simp add: n T500RS_MAX_COMBINED_EFFECTS_def)
  have o: "kzalloc_ok (next_outcome ex_world) \<and> get_device_ok (next_outcome ex_world)"
    by (simp add: next_outcome_def ex_world_def)
  note rejected = combined_encoding_size [OF c, of "(ex_combined True)\<lparr>num_effects := 17\<rparr>"
      ex_consts ex_world, THEN conjunct1, THEN mp, OF many]
  note accepted = combined_encoding_size [OF c, of "ex_combined True" ex_consts ex_world,
      THEN conjunct2, THEN mp, OF two]
  have "length (combined_payload (ex_combined True)) = 14"
    using accepted [THEN conjunct1] by (simp add: n)
  moreover have "t500rs_upload_combined ex_consts ex_world
      (ex_state\<lparr>combined := Some (ex_combined True)\<rparr>) =
       (\<lparr>outcomes = [],
         sent = [[0x60, 0, 15, 0, 0, 0, 5, 14, 2, 1, 1, 10, 31, 2, 20, 46]]\<rparr>, 0)"
    using accepted [THEN conjunct2, THEN conjunct2, THEN mp, OF o]
    by (simp add: ex_payload_dynamic ex_world_def ex_consts_def)
  ultimately show ?thesis
    using rejected by simp
qed

subsection \<open>Weight updates\<close>

lemma find_effect_absent:
  assumes "unat (num_effects c) \<le> length (effect_ids c)"
    and "eid \<notin> set (take (unat (num_effects c)) (effect_ids c))"
  shows "find_effect c eid = None"
proof -
  have "effect_ids c ! i \<noteq> eid" if "i < unat (num_effects c)" for i
  proof -
    from that assms(1) have "take (unat (num_effects c)) (effect_ids c) ! i = effect_ids c ! i"
      and "i < length (take (unat (num_effects c)) (effect_ids c))"
      by simp_all
    then have "effect_ids c ! i \<in> set (take (unat (num_effects c)) (effect_ids c))"
      by (metis nth_mem)
    with assms(2) show ?thesis by auto
  qed
  then show ?thesis
    by (simp add: find_effect_def find_None_iff)
qed

lemma find_effect_first:
  assumes "i < unat (num_effects c)" and "effect_ids c ! i = eid"
    and "\<forall>j<i. effect_ids c ! j \<noteq> eid"
  shows "find_effect c eid = Some i"
  unfolding find_effect_def find_Some_iff
  using assms by (intro exI[of _ i]) simp

text \<open>
  Whenever the update passes the validation, the new weight is written into the
  record, and the value returned is whatever the send returns afterwards.
\<close>

lemma upload_weight_commits:
  assumes "combined state = Some c" and "dynamic_weights c"
    and "find_effect c (effect_id update) = Some found"
    and "min_weights c ! found \<le> new_weight update"
    and "new_weight update \<le> max_weights c ! found"
  shows "fst (snd (t500rs_upload_weight K w state update)) =
           state\<lparr>combined := Some (c\<lparr>weights := (weights c)[found := new_weight update]\<rparr>)\<rparr>
         \<and> snd (snd (t500rs_upload_weight K w state update)) =
           snd (t500rs_send_effect K w (T500RS_CMD_UPDATE K) (weight_params K update) 8)"
  using assms
  by (simp add: t500rs_upload_weight_def Let_def split_beta not_less[symmetric])

text \<open>
  C1. The claim asks that a failed send leave the stored weight unchanged. The code
  stores the weight before it calls the sender: with the record of two constituents
  (ids 1 and 2, weights 10 and 20) and an update of constituent 2 to weight 0x30, a
  send that fails for want of memory returns \<open>-ENOMEM\<close> and leaves weight 0x30 in the
  record.
\<close>

theorem weight_committed_before_failed_send:
  "t500rs_upload_weight ex_consts (ex_world\<lparr>outcomes := [Outcome False True True]\<rparr>)
     (ex_state\<lparr>combined := Some (ex_combined True)\<rparr>)
     \<lparr>effect_id = 2, new_weight = 0x30, smooth_transition = False, transition_steps = 0\<rparr>
   = (ex_world,
      ex_state\<lparr>combined := Some ((ex_combined True)\<lparr>weights := [10, 0x30] @ replicate 14 0\<rparr>)\<rparr>,
      - ENOMEM)"
  by code_simp

text \<open>
  C8. With the constituent count within the id array: an update whose target id is not
  among the record's constituents, or whose new weight is below the minimum or above
  the maximum of the constituent found (the first one with that id), returns
  \<open>-EINVAL\<close>; the slot, and with it every weight of the record, and the world are
  unchanged.
\<close>

theorem weight_update_rejected:
  assumes "combined state = Some c"
    and "unat (num_effects c) \<le> length (effect_ids c)"
    and "effect_id update \<notin> set (take (unat (num_effects c)) (effect_ids c)) \<or>
         (\<exists>i < unat (num_effects c). effect_ids c ! i = effect_id update \<and>
            (\<forall>j<i. effect_ids c ! j \<noteq> effect_id update) \<and>
            (new_weight update < min_weights c ! i \<or> max_weights c ! i < new_weight update))"
  shows "t500rs_upload_weight K w state update = (w, state, - EINVAL)"
  using assms(3)
proof
  assume "effect_id update \<notin> set (take (unat (num_effects c)) (effect_ids c))"
  with assms(2) have "find_effect c (effect_id update) = None"
    by (rule find_effect_absent)
  with assms(1) show ?thesis
    by (simp add: t500rs_upload_weight_def)
next
  assume "\<exists>i < unat (num_effects c). effect_ids c ! i = effect_id update \<and>
            (\<forall>j<i. effect_ids c ! j \<noteq> effect_id update) \<and>
            (new_weight update < min_weights c ! i \<or> max_weights c ! i < new_weight update)"
  then obtain i where i: "i < unat (num_effects c)" "effect_ids c ! i = effect_id update"
      "\<forall>j<i. effect_ids c ! j \<noteq> effect_id update"
    and bad: "new_weight update < min_weights c ! i \<or> max_weights c ! i < new_weight update"
    by blast
  from i have "find_effect c (effect_id update) = Some i"
    by (rule find_effect_first)
  with assms(1) bad show ?thesis
    by (auto simp: t500rs_upload_weight_def)
qed

theorem weight_update_rejected_witness:
  "t500rs_upload_weight ex_consts ex_world (ex_state\<lparr>combined := Some (ex_combined True)\<rparr>)
     \<lparr>effect_id = 7, new_weight = 0x30, smooth_transition = False, transition_steps = 0\<rparr>
     = (ex_world, ex_state\<lparr>combined := Some (ex_combined True)\<rparr>, - EINVAL)
   \<and> t500rs_upload_weight ex_consts ex_world (ex_state\<lparr>combined := Some (ex_combined True)\<rparr>)
     \<lparr>effect_id = 2, new_weight = 0xe1, smooth_transition = False, transition_steps = 0\<rparr>
     = (ex_world, ex_state\<lparr>combined := Some (ex_combined True)\<rparr>, - EINVAL)"
proof -
  have c: "combined (ex_state\<lparr>combined := Some (ex_combined True)\<rparr>) = Some (ex_combined True)"
    by simp
  have n: "unat (num_effects (ex_combined True)) \<le> length (effect_ids (ex_combined True))"
    by (simp add: ex_combined_def)
  have absent: "effect_id \<lparr>effect_id = 7, new_weight = 0x30, smooth_transition = False,
        transition_steps = 0\<rparr>
      \<notin> set (take (unat (num_effects (ex_combined True))) (effect_ids (ex_combined True)))"
    by (simp add: ex_combined_def)
  have above: "\<exists>i < unat (num_effects (ex_combined True)).
      effect_ids (ex_combined True) ! i = effect_id \<lparr>effect_id = 2, new_weight = 0xe1,
        smooth_transition = False, transition_steps = 0\<rparr> \<and>
      (\<forall>j<i. effect_ids (ex_combined True) ! j \<noteq> effect_id \<lparr>effect_id = 2, new_weight = 0xe1,
        smooth_transition = False, transition_steps = 0\<rparr>) \<and>
      (new_weight \<lparr>effect_id = 2, new_weight = 0xe1, smooth_transition = False,
        transition_steps = 0\<rparr> < min_weights (ex_combined True) ! i \<or>
       max_weights (ex_combined True) ! i < new_weight \<lparr>effect_id = 2, new_weight = 0xe1,
        smooth_transition = False, transition_steps = 0\<rparr>)"
    by (rule exI [of _ 1]) (simp add: ex_combined_def)
  show ?thesis
    using weight_update_rejected [OF c n disjI1, OF absent, of ex_consts ex_world]
      weight_update_rejected [OF c n disjI2, OF above, of ex_consts ex_world]
    by simp
qed

subsection \<open>The upload entry point\<close>

text \<open>
  C10. When the device entry is found, a descriptor of type \<open>FF_PERIODIC\<close> whose period
  is zero is rejected with \<open>-EINVAL\<close>, and the device entry returned is the one given:
  no slot's descriptor, previous descriptor or flags have changed.
\<close>

theorem upload_rejects_zero_period:
  assumes "type eff = FF_PERIODIC" and "period (u_periodic eff) = 0"
  shows "t500rs_upload (Some t500rs) eff old_eff = (Some t500rs, - EINVAL)"
  using assms by (simp add: t500rs_upload_def)

theorem upload_rejects_zero_period_witness:
  "t500rs_upload (Some \<lparr>states = replicate 16 ex_state, hrtimer_active = False\<rparr>)
     (ex_effect\<lparr>type := FF_PERIODIC\<rparr>) None =
   (Some \<lparr>states = replicate 16 ex_state, hrtimer_active = False\<rparr>, - EINVAL)"
proof -
  have t: "type (ex_effect\<lparr>type := FF_PERIODIC\<rparr>) = FF_PERIODIC"
    by simp
  have p: "period (u_periodic (ex_effect\<lparr>type := FF_PERIODIC\<rparr>)) = 0"
    by (simp add: ex_effect_def)
  show ?thesis
    using upload_rejects_zero_period [OF t p] .
qed

subsection \<open>The constant-force upload\<close>

lemma send_effect_sends_ok:
  assumes "sends_ok (Suc n) w"
  shows "t500rs_send_effect K w cid p k =
           (w\<lparr>outcomes := tl (outcomes w), sent := sent w @ [t500rs_cmd_header K @ take k p]\<rparr>, 0)"
    and "sends_ok n (w\<lparr>outcomes := tl (outcomes w), sent := sent w @ [t500rs_cmd_header K @ take k p]\<rparr>)"
  using assms
  by (cases "outcomes w";
      simp add: sends_ok_def t500rs_send_effect_def t500rs_send_int_def next_outcome_def Let_def)+

lemma tl3: "tl (tl (tl xs)) = drop 3 xs"
  by (simp add: numeral_3_eq_3 drop_Suc)

text \<open>
  C9. For a slot without a combined record whose descriptor is a constant force of
  level 0x40 with attack and fade length zero and replay length zero, and with the
  next three sends finding memory and the device: the upload sends exactly three
  buffers, in this order: the envelope command with an all-zero body, the
  constant-level command whose payload carries 0x40, and the upload trailer whose
  payload carries the effect-type code \<open>T500RS_EFFECT_CONSTANT\<close>. It returns 0.
\<close>

theorem constant_upload_three_buffers:
  assumes "combined state = None"
    and "type (effect state) = FF_CONSTANT"
    and "level (u_constant (effect state)) = 0x40"
    and "attack_length (constant_envelope (u_constant (effect state))) = 0"
    and "fade_length (constant_envelope (u_constant (effect state))) = 0"
    and "replay_length (effect state) = 0"
    and "sends_ok 3 w"
  shows "t500rs_upload_effect K w state =
           (w\<lparr>outcomes := drop 3 (outcomes w),
              sent := sent w @
                [t500rs_cmd_header K @ [T500RS_CMD_SET_ENVELOPE, 0x1c, 0, 0, 0, 0, 0, 0, 0],
                 t500rs_cmd_header K @ [T500RS_CMD_SET_CONSTANT, 0x0e, 0x00, 0x40],
                 t500rs_cmd_header K @
                   [T500RS_CMD_UPLOAD_EFFECT, 0x00, T500RS_EFFECT_CONSTANT, 0x40, 0x17, 0x25,
                    0x00, 0xff, 0xff, 0x0e, 0x00, 0x1c, 0x00]]\<rparr>, 0)"
proof -
  define h where "h = t500rs_cmd_header K"
  define w1 where
    "w1 = w\<lparr>outcomes := tl (outcomes w), sent := sent w @ [h @ take 9 envelope_params]\<rparr>"
  define w2 where
    "w2 = w1\<lparr>outcomes := tl (outcomes w1),
              sent := sent w1 @ [h @ take 4 (constant_params state)]\<rparr>"
  define w3 where
    "w3 = w2\<lparr>outcomes := tl (outcomes w2),
              sent := sent w2 @ [h @ take 13 (upload_params T500RS_EFFECT_CONSTANT)]\<rparr>"
  from assms(7) have ok3: "sends_ok (Suc (Suc (Suc 0))) w"
    by (simp add: numeral_3_eq_3)
  have s1: "t500rs_send_effect K w T500RS_CMD_SET_ENVELOPE envelope_params 9 = (w1, 0)"
    and ok2: "sends_ok (Suc (Suc 0)) w1"
    unfolding w1_def h_def by (rule send_effect_sends_ok [OF ok3])+
  have s2: "t500rs_send_effect K w1 T500RS_CMD_SET_CONSTANT (constant_params state) 4 = (w2, 0)"
    and ok1: "sends_ok (Suc 0) w2"
    unfolding w2_def h_def by (rule send_effect_sends_ok [OF ok2])+
  have s3: "t500rs_send_effect K w2 T500RS_CMD_UPLOAD_EFFECT
              (upload_params T500RS_EFFECT_CONSTANT) 13 = (w3, 0)"
    unfolding w3_def h_def by (rule send_effect_sends_ok(1) [OF ok1])
  have const: "t500rs_upload_constant K w state = (w3, 0)"
    by (simp add: t500rs_upload_constant_def s1 s2 s3)
  have "t500rs_upload_effect K w state = (w3, 0)"
    using assms(1,2,4,5,6)
    by (simp add: t500rs_upload_effect_def upload_switch_def upload_envelope_if_set_def const)
  moreover have "w3 = w\<lparr>outcomes := drop 3 (outcomes w),
              sent := sent w @
                [h @ [T500RS_CMD_SET_ENVELOPE, 0x1c, 0, 0, 0, 0, 0, 0, 0],
                 h @ [T500RS_CMD_SET_CONSTANT, 0x0e, 0x00, 0x40],
                 h @ [T500RS_CMD_UPLOAD_EFFECT, 0x00, T500RS_EFFECT_CONSTANT, 0x40, 0x17, 0x25,
                    0x00, 0xff, 0xff, 0x0e, 0x00, 0x1c, 0x00]]\<rparr>"
    using assms(3)
    by (simp add: w3_def w2_def w1_def tl3 envelope_params_def constant_params_def
        upload_params_def)
  ultimately show ?thesis
    by (simp add: h_def)
qed

theorem constant_upload_three_buffers_witness:
  "t500rs_upload_effect ex_consts ex_world ex_state =
     (\<lparr>outcomes = [],
       sent = [[0x60, 0, 2, 0x1c, 0, 0, 0, 0, 0, 0, 0], [0x60, 0, 3, 0x0e, 0, 0x40],
               [0x60, 0, 1, 0, 0, 0x40, 0x17, 0x25, 0, 0xff, 0xff, 0x0e, 0, 0x1c, 0]]\<rparr>, 0)"
proof -
  have "combined ex_state = None" "type (effect ex_state) = FF_CONSTANT"
    "level (u_constant (effect ex_state)) = 0x40"
    "attack_length (constant_envelope (u_constant (effect ex_state))) = 0"
    "fade_length (constant_envelope (u_constant (effect ex_state))) = 0"
    "replay_length (effect ex_state) = 0"
    "sends_ok 3 ex_world"
    by (simp_all add: ex_state_def ex_effect_def ex_envelope_def ex_world_def sends_ok_def)
  from constant_upload_three_buffers [OF this, of ex_consts] show ?thesis
    by (simp add: ex_world_def ex_consts_def T500RS_CMD_SET_ENVELOPE_def
        T500RS_CMD_SET_CONSTANT_def T500RS_CMD_UPLOAD_EFFECT_def T500RS_EFFECT_CONSTANT_def)
qed

subsection \<open>Sends whose allocation and device lookup succeed\<close>

lemma send_all_ok:
  assumes "all_ok w"
  shows "snd (t500rs_send_effect K w cid p n) = 0"
    and "all_ok (fst (t500rs_send_effect K w cid p n))"
  using assms
  by (cases "outcomes w";
      simp add: all_ok_def t500rs_send_effect_def t500rs_send_int_def next_outcome_def Let_def)+

lemma constant_all_ok:
  assumes "all_ok w"
  shows "snd (t500rs_upload_constant K w s) = 0"
    and "all_ok (fst (t500rs_upload_constant K w s))"
  using assms by (simp_all add: t500rs_upload_constant_def split_beta Let_def send_all_ok)

lemma ramp_all_ok:
  assumes "all_ok w"
  shows "snd (t500rs_upload_ramp K w s) = 0"
    and "all_ok (fst (t500rs_upload_ramp K w s))"
  using assms by (simp_all add: t500rs_upload_ramp_def split_beta Let_def send_all_ok)

lemma periodic_all_ok:
  assumes "all_ok w"
  shows "snd (t500rs_upload_periodic K w s) \<in> {0, - EINVAL}"
    and "all_ok (fst (t500rs_upload_periodic K w s))"
  using assms
  by (simp_all add: t500rs_upload_periodic_def split_beta Let_def send_all_ok split: option.split)

lemma condition_all_ok:
  assumes "all_ok w"
  shows "snd (t500rs_upload_condition K w s t) = 0"
    and "all_ok (fst (t500rs_upload_condition K w s t))"
  using assms by (simp_all add: t500rs_upload_condition_def split_beta Let_def send_all_ok)

lemma condition_extended_all_ok:
  assumes "all_ok w"
  shows "snd (t500rs_upload_condition_extended K w s t) = 0"
    and "all_ok (fst (t500rs_upload_condition_extended K w s t))"
  using assms by (simp_all add: t500rs_upload_condition_extended_def send_all_ok)

lemma inertia_all_ok:
  assumes "all_ok w"
  shows "snd (t500rs_upload_inertia K w p) = 0"
    and "all_ok (fst (t500rs_upload_inertia K w p))"
  using assms by (simp_all add: t500rs_upload_inertia_def send_all_ok)

lemma envelope_all_ok:
  assumes "all_ok w"
  shows "snd (t500rs_upload_envelope K w s) = 0"
    and "all_ok (fst (t500rs_upload_envelope K w s))"
  using assms by (simp_all add: t500rs_upload_envelope_def split_beta Let_def send_all_ok)

lemma duration_all_ok:
  assumes "all_ok w"
  shows "snd (t500rs_modify_duration K w s) = 0"
    and "all_ok (fst (t500rs_modify_duration K w s))"
  using assms by (simp_all add: t500rs_modify_duration_def send_all_ok)

lemma combined_all_ok:
  assumes "all_ok w"
  shows "snd (t500rs_upload_combined K w s) \<in> {0, - EINVAL}"
    and "all_ok (fst (t500rs_upload_combined K w s))"
  using assms
  by (simp_all add: t500rs_upload_combined_def send_all_ok split: option.split)

lemma envelope_if_set_all_ok:
  assumes "all_ok (fst r)" and "snd r = 0"
  shows "snd (upload_envelope_if_set K env s r) = Inr 0"
    and "all_ok (fst (upload_envelope_if_set K env s r))"
  using assms
  by (simp_all add: upload_envelope_if_set_def split_beta envelope_all_ok)

lemma upload_switch_all_ok:
  assumes "all_ok w"
  shows "snd (upload_switch K w s) \<in> {Inr 0, Inr (- EINVAL), Inl (- EINVAL)}"
    and "all_ok (fst (upload_switch K w s))"
  using assms periodic_all_ok [of w K s]
  by (auto simp: upload_switch_def Let_def envelope_if_set_all_ok constant_all_ok ramp_all_ok
      condition_all_ok condition_extended_all_ok inertia_all_ok)

lemma upload_effect_all_ok:
  assumes "all_ok w"
  shows "snd (t500rs_upload_effect K w s) \<in> {0, - EINVAL}"
    and "all_ok (fst (t500rs_upload_effect K w s))"
  using upload_switch_all_ok [OF assms, of K s] assms
  by (auto simp: t500rs_upload_effect_def split_beta combined_all_ok duration_all_ok
      split: sum.splits dest: combined_all_ok(1))

lemma play_all_ok:
  assumes "all_ok w"
  shows "snd (t500rs_play_effect K w s) = 0"
    and "all_ok (fst (t500rs_play_effect K w s))"
  using assms by (simp_all add: t500rs_play_effect_def send_all_ok)

lemma stop_all_ok:
  assumes "all_ok w"
  shows "snd (t500rs_stop_effect K w s) = 0"
    and "all_ok (fst (t500rs_stop_effect K w s))"
  using assms by (simp_all add: t500rs_stop_effect_def send_all_ok)

lemma timer_upload_all_ok:
  assumes "all_ok w"
  shows "snd (snd (timer_upload K w s)) \<in> {0, - EINVAL}"
    and "all_ok (fst (timer_upload K w s))"
  using upload_effect_all_ok [OF assms]
  by (simp_all add: timer_upload_def split_beta Let_def assms)

lemma timer_start_all_ok:
  assumes "all_ok w"
  shows "snd (snd (timer_start K w s)) = 0"
    and "all_ok (fst (timer_start K w s))"
  using assms by (simp_all add: timer_start_def split_beta Let_def play_all_ok)

lemma timer_stop_all_ok:
  assumes "all_ok w"
  shows "snd (snd (timer_stop K w s)) = 0"
    and "all_ok (fst (timer_stop K w s))"
  using assms by (simp_all add: timer_stop_def split_beta Let_def stop_all_ok)

lemma timer_slot_all_ok:
  assumes "all_ok w"
  shows "snd (snd (timer_slot K now w mc s)) = Inl ret \<Longrightarrow> ret = - EINVAL"
    and "all_ok (fst (timer_slot K now w mc s))"
  using timer_upload_all_ok [OF assms, of K "timer_expire now s"]
  by (auto simp: timer_slot_def split_beta Let_def timer_start_all_ok timer_stop_all_ok
      split: if_splits)

lemma timer_loop_all_ok:
  assumes "all_ok w"
  shows "(snd (snd (timer_loop K now w mc ss)) = Inl ret \<longrightarrow> ret = - EINVAL) \<and>
         all_ok (fst (timer_loop K now w mc ss))"
  using assms
proof (induction ss arbitrary: w mc)
  case Nil
  then show ?case by simp
next
  case (Cons s ss)
  obtain w' s' r where slot: "timer_slot K now w mc s = (w', s', r)"
    by (cases "timer_slot K now w mc s") auto
  from timer_slot_all_ok [OF Cons.prems, of K now mc s] slot
  have r: "\<And>e. r = Inl e \<Longrightarrow> e = - EINVAL" and ok: "all_ok w'"
    by auto
  show ?case
  proof (cases r)
    case (Inl e)
    with slot r ok show ?thesis by simp
  next
    case (Inr mc')
    with slot Cons.IH [OF ok, of mc'] show ?thesis
      by (simp add: split_beta)
  qed
qed

lemma timer_helper_all_ok:
  assumes "all_ok w"
  shows "snd (snd (t500rs_timer_helper K now w d)) = Inl ret \<Longrightarrow> ret = - EINVAL"
  using timer_loop_all_ok [OF assms, of K now 0 "take T500RS_MAX_EFFECTS (states d)" ret]
  by (cases "snd (snd (timer_loop K now w 0 (take T500RS_MAX_EFFECTS (states d))))")
     (auto simp: t500rs_timer_helper_def split_beta)

subsection \<open>Sends whose device lookup succeeds\<close>

lemma ok_or_nomem_weaken: "ok_or_nomem ret \<Longrightarrow> ok_or_nomem_or_inval ret"
  by (auto simp: ok_or_nomem_def ok_or_nomem_or_inval_def)

lemma ok_or_nomem_simps:
  "ok_or_nomem 0" "ok_or_nomem_or_inval 0" "ok_or_nomem_or_inval (- EINVAL)"
  by (simp_all add: ok_or_nomem_def ok_or_nomem_or_inval_def)

lemma send_lookups_ok:
  assumes "lookups_ok w"
  shows "ok_or_nomem (snd (t500rs_send_effect K w cid p n))"
    and "lookups_ok (fst (t500rs_send_effect K w cid p n))"
  using assms
  by (cases "outcomes w";
      simp add: lookups_ok_def ok_or_nomem_def t500rs_send_effect_def t500rs_send_int_def
        next_outcome_def Let_def)+

lemma constant_lookups_ok:
  assumes "lookups_ok w"
  shows "ok_or_nomem (snd (t500rs_upload_constant K w s))"
    and "lookups_ok (fst (t500rs_upload_constant K w s))"
  using assms by (simp_all add: t500rs_upload_constant_def split_beta Let_def send_lookups_ok)

lemma ramp_lookups_ok:
  assumes "lookups_ok w"
  shows "ok_or_nomem (snd (t500rs_upload_ramp K w s))"
    and "lookups_ok (fst (t500rs_upload_ramp K w s))"
  using assms by (simp_all add: t500rs_upload_ramp_def split_beta Let_def send_lookups_ok)

lemma periodic_lookups_ok:
  assumes "lookups_ok w"
  shows "ok_or_nomem_or_inval (snd (t500rs_upload_periodic K w s))"
    and "lookups_ok (fst (t500rs_upload_periodic K w s))"
  using assms
  by (simp_all add: t500rs_upload_periodic_def split_beta Let_def send_lookups_ok
      ok_or_nomem_weaken ok_or_nomem_simps split: option.split)

lemma condition_lookups_ok:
  assumes "lookups_ok w"
  shows "ok_or_nomem (snd (t500rs_upload_condition K w s t))"
    and "lookups_ok (fst (t500rs_upload_condition K w s t))"
  using assms by (simp_all add: t500rs_upload_condition_def split_beta Let_def send_lookups_ok)

lemma condition_extended_lookups_ok:
  assumes "lookups_ok w"
  shows "ok_or_nomem (snd (t500rs_upload_condition_extended K w s t))"
    and "lookups_ok (fst (t500rs_upload_condition_extended K w s t))"
  using assms by (simp_all add: t500rs_upload_condition_extended_def send_lookups_ok)

lemma inertia_lookups_ok:
  assumes "lookups_ok w"
  shows "ok_or_nomem (snd (t500rs_upload_inertia K w p))"
    and "lookups_ok (fst (t500rs_upload_inertia K w p))"
  using assms by (simp_all add: t500rs_upload_inertia_def send_lookups_ok)

lemma envelope_lookups_ok:
  assumes "lookups_ok w"
  shows "ok_or_nomem (snd (t500rs_upload_envelope K w s))"
    and "lookups_ok (fst (t500rs_upload_envelope K w s))"
  using assms by (simp_all add: t500rs_upload_envelope_def split_beta Let_def send_lookups_ok)

lemma duration_lookups_ok:
  assumes "lookups_ok w"
  shows "ok_or_nomem (snd (t500rs_modify_duration K w s))"
    and "lookups_ok (fst (t500rs_modify_duration K w s))"
  using assms by (simp_all add: t500rs_modify_duration_def send_lookups_ok)

lemma combined_lookups_ok:
  assumes "lookups_ok w"
  shows "ok_or_nomem_or_inval (snd (t500rs_upload_combined K w s))"
    and "lookups_ok (fst (t500rs_upload_combined K w s))"
  using assms
  by (simp_all add: t500rs_upload_combined_def send_lookups_ok ok_or_nomem_weaken
      ok_or_nomem_simps split: option.split)

lemma envelope_if_set_lookups_ok:
  assumes "lookups_ok (fst r)" and "ok_or_nomem (snd r)"
  shows "case_sum ok_or_nomem_or_inval ok_or_nomem_or_inval
           (snd (upload_envelope_if_set K env s r))"
    and "lookups_ok (fst (upload_envelope_if_set K env s r))"
  using assms
  by (simp_all add: upload_envelope_if_set_def split_beta envelope_lookups_ok
      ok_or_nomem_weaken ok_or_nomem_simps)

lemma upload_switch_lookups_ok:
  assumes "lookups_ok w"
  shows "case_sum ok_or_nomem_or_inval ok_or_nomem_or_inval (snd (upload_switch K w s))"
    and "lookups_ok (fst (upload_switch K w s))"
  using assms
  by (simp_all add: upload_switch_def Let_def envelope_if_set_lookups_ok constant_lookups_ok
      ramp_lookups_ok condition_lookups_ok condition_extended_lookups_ok inertia_lookups_ok
      periodic_lookups_ok ok_or_nomem_weaken ok_or_nomem_simps)

lemma upload_effect_lookups_ok:
  assumes "lookups_ok w"
  shows "ok_or_nomem_or_inval (snd (t500rs_upload_effect K w s))"
    and "lookups_ok (fst (t500rs_upload_effect K w s))"
  using upload_switch_lookups_ok [OF assms, of K s] assms
  by (auto simp: t500rs_upload_effect_def combined_lookups_ok duration_lookups_ok
      ok_or_nomem_weaken split: prod.split sum.split)

lemma timer_upload_lookups_ok:
  assumes "lookups_ok w"
  shows "ok_or_nomem_or_inval (snd (snd (timer_upload K w s)))"
    and "lookups_ok (fst (timer_upload K w s))"
  using assms
  by (simp_all add: timer_upload_def split_beta Let_def upload_effect_lookups_ok
      ok_or_nomem_simps)

lemma timer_start_lookups_ok:
  assumes "lookups_ok w"
  shows "ok_or_nomem (snd (snd (timer_start K w s)))"
    and "lookups_ok (fst (timer_start K w s))"
  using assms
  by (simp_all add: timer_start_def split_beta Let_def t500rs_play_effect_def send_lookups_ok
      ok_or_nomem_simps)

lemma timer_stop_lookups_ok:
  assumes "lookups_ok w"
  shows "ok_or_nomem (snd (snd (timer_stop K w s)))"
    and "lookups_ok (fst (timer_stop K w s))"
  using assms
  by (simp_all add: timer_stop_def split_beta Let_def t500rs_stop_effect_def send_lookups_ok
      ok_or_nomem_simps)

lemma timer_slot_lookups_ok:
  assumes "lookups_ok w"
  shows "case_sum (\<lambda>ret. ret = - ENOMEM \<or> ret = - EINVAL) (\<lambda>mc. True)
           (snd (snd (timer_slot K now w mc s)))"
    and "lookups_ok (fst (timer_slot K now w mc s))"
proof -
  let ?u = "timer_upload K w (timer_expire now s)"
  let ?p = "timer_start K (fst ?u) (fst (snd ?u))"
  let ?q = "timer_stop K (fst ?p) (fst (snd ?p))"
  note u = timer_upload_lookups_ok [OF assms, of K "timer_expire now s"]
  note p = timer_start_lookups_ok [OF u(2), of K "fst (snd ?u)"]
  note q = timer_stop_lookups_ok [OF p(2), of K "fst (snd ?p)"]
  from u(1) p(1) q(1)
  show "case_sum (\<lambda>ret. ret = - ENOMEM \<or> ret = - EINVAL) (\<lambda>mc. True)
      (snd (snd (timer_slot K now w mc s)))"
    by (auto simp: timer_slot_def split_beta Let_def ok_or_nomem_def ok_or_nomem_or_inval_def)
  from u(2) p(2) q(2) show "lookups_ok (fst (timer_slot K now w mc s))"
    by (simp add: timer_slot_def split_beta Let_def)
qed

lemma timer_loop_lookups_ok:
  assumes "lookups_ok w"
  shows "case_sum (\<lambda>ret. ret = - ENOMEM \<or> ret = - EINVAL) (\<lambda>mc. True)
           (snd (snd (timer_loop K now w mc ss))) \<and>
         lookups_ok (fst (timer_loop K now w mc ss))"
  using assms
proof (induction ss arbitrary: w mc)
  case Nil
  then show ?case by simp
next
  case (Cons s ss)
  obtain w' s' r where slot: "timer_slot K now w mc s = (w', s', r)"
    by (cases "timer_slot K now w mc s") auto
  from timer_slot_lookups_ok [OF Cons.prems, of K now mc s] slot
  have r: "case_sum (\<lambda>ret. ret = - ENOMEM \<or> ret = - EINVAL) (\<lambda>mc. True) r"
    and ok: "lookups_ok w'"
    by auto
  show ?case
  proof (cases r)
    case (Inl e)
    with slot r ok show ?thesis by simp
  next
    case (Inr mc')
    with slot Cons.IH [OF ok, of mc'] show ?thesis
      by (simp add: split_beta)
  qed
qed

lemma timer_helper_lookups_ok:
  assumes "lookups_ok w" and "snd (snd (t500rs_timer_helper K now w d)) = Inl ret"
  shows "ret = - ENOMEM \<or> ret = - EINVAL"
proof -
  let ?r = "snd (snd (timer_loop K now w 0 (take T500RS_MAX_EFFECTS (states d))))"
  from assms(2) have "?r = Inl ret"
    by (cases ?r) (auto simp: t500rs_timer_helper_def split_beta)
  with timer_loop_lookups_ok [OF assms(1), of K now 0 "take T500RS_MAX_EFFECTS (states d)"]
  show ?thesis
    by simp
qed

text \<open>
  C4, as amended. \<open>t500rs_send_int\<close> returns 0 whenever the device lookup succeeds, and
  what it does is the same whether the HID layer delivers the report or not.
  \<open>t500rs_send_effect\<close> returns \<open>-ENOMEM\<close> when the allocation fails, \<open>-1\<close> when the
  allocation succeeds and the lookup fails, and 0 otherwise. With every lookup
  succeeding, whatever the transfers do, the start and stop blocks of the tick fail
  only with \<open>-ENOMEM\<close>, the upload block and the encoder pipeline only with \<open>-ENOMEM\<close> or
  the \<open>-EINVAL\<close> of the encoders' own validation, and the tick returns no other error.
  With every allocation succeeding too, the start and stop blocks do not fail, and the
  upload block, the pipeline and the tick fail only with that \<open>-EINVAL\<close>. The failure
  branches are thus reached for these causes and never for a failed transfer.
\<close>

theorem transfer_outcome_unobserved:
  "(get_device_ok e \<longrightarrow> snd (t500rs_send_int e w buf) = 0) \<and>
   t500rs_send_int (Outcome a d True) w buf = t500rs_send_int (Outcome a d False) w buf \<and>
   snd (t500rs_send_effect K w cid params n) =
     (if \<not> kzalloc_ok (next_outcome w) then - ENOMEM
      else if \<not> get_device_ok (next_outcome w) then - 1 else 0) \<and>
   (lookups_ok w \<longrightarrow>
      snd (snd (timer_start K w state)) \<in> {0, - ENOMEM} \<and>
      snd (snd (timer_stop K w state)) \<in> {0, - ENOMEM} \<and>
      snd (snd (timer_upload K w state)) \<in> {0, - ENOMEM, - EINVAL} \<and>
      snd (t500rs_upload_effect K w state) \<in> {0, - ENOMEM, - EINVAL} \<and>
      (\<forall>ret. snd (snd (t500rs_timer_helper K now w t500rs)) = Inl ret \<longrightarrow>
         ret = - ENOMEM \<or> ret = - EINVAL)) \<and>
   (all_ok w \<longrightarrow>
      snd (snd (timer_start K w state)) = 0 \<and>
      snd (snd (timer_stop K w state)) = 0 \<and>
      snd (snd (timer_upload K w state)) \<in> {0, - EINVAL} \<and>
      snd (t500rs_upload_effect K w state) \<in> {0, - EINVAL} \<and>
      (\<forall>ret. snd (snd (t500rs_timer_helper K now w t500rs)) = Inl ret \<longrightarrow> ret = - EINVAL))"
proof (intro conjI impI allI)
  assume "get_device_ok e"
  then show "snd (t500rs_send_int e w buf) = 0"
    by (simp add: t500rs_send_int_def)
next
  show "t500rs_send_int (Outcome a d True) w buf = t500rs_send_int (Outcome a d False) w buf"
    by (simp add: t500rs_send_int_def)
next
  show "snd (t500rs_send_effect K w cid params n) =
      (if \<not> kzalloc_ok (next_outcome w) then - ENOMEM
       else if \<not> get_device_ok (next_outcome w) then - 1 else 0)"
    by (simp add: t500rs_send_effect_def t500rs_send_int_def Let_def)
next
  assume "lookups_ok w"
  then show "snd (snd (timer_start K w state)) \<in> {0, - ENOMEM}"
    using timer_start_lookups_ok(1) [of w K state] by (simp add: ok_or_nomem_def)
next
  assume "lookups_ok w"
  then show "snd (snd (timer_stop K w state)) \<in> {0, - ENOMEM}"
    using timer_stop_lookups_ok(1) [of w K state] by (simp add: ok_or_nomem_def)
next
  assume "lookups_ok w"
  then show "snd (snd (timer_upload K w state)) \<in> {0, - ENOMEM, - EINVAL}"
    using timer_upload_lookups_ok(1) [of w K state] by (simp add: ok_or_nomem_or_inval_def)
next
  assume "lookups_ok w"
  then show "snd (t500rs_upload_effect K w state) \<in> {0, - ENOMEM, - EINVAL}"
    using upload_effect_lookups_ok(1) [of w K state] by (simp add: ok_or_nomem_or_inval_def)
next
  fix ret
  assume "lookups_ok w" and "snd (snd (t500rs_timer_helper K now w t500rs)) = Inl ret"
  then show "ret = - ENOMEM \<or> ret = - EINVAL"
    by (rule timer_helper_lookups_ok)
next
  assume "all_ok w"
  then show "snd (snd (timer_start K w state)) = 0"
    by (rule timer_start_all_ok)
next
  assume "all_ok w"
  then show "snd (snd (timer_stop K w state)) = 0"
    by (rule timer_stop_all_ok)
next
  assume "all_ok w"
  then show "snd (snd (timer_upload K w state)) \<in> {0, - EINVAL}"
    by (rule timer_upload_all_ok)
next
  assume "all_ok w"
  then show "snd (t500rs_upload_effect K w state) \<in> {0, - EINVAL}"
    by (rule upload_effect_all_ok)
next
  fix ret
  assume "all_ok w" and "snd (snd (t500rs_timer_helper K now w t500rs)) = Inl ret"
  then show "ret = - EINVAL"
    by (rule timer_helper_all_ok)
qed

subsection \<open>The log only grows\<close>

lemma grows_refl: "grows w w"
  by (simp add: grows_def)

lemma grows_trans: "grows w1 w2 \<Longrightarrow> grows w2 w3 \<Longrightarrow> grows w1 w3"
  by (auto simp: grows_def)

lemma send_grows:
  "grows w0 w \<Longrightarrow> grows w0 (fst (t500rs_send_effect K w cid p n))"
  by (auto simp: grows_def t500rs_send_effect_def t500rs_send_int_def Let_def)

lemma constant_grows: "grows w0 w \<Longrightarrow> grows w0 (fst (t500rs_upload_constant K w s))"
  by (simp add: t500rs_upload_constant_def split_beta Let_def send_grows)

lemma ramp_grows: "grows w0 w \<Longrightarrow> grows w0 (fst (t500rs_upload_ramp K w s))"
  by (simp add: t500rs_upload_ramp_def split_beta Let_def send_grows)

lemma periodic_grows: "grows w0 w \<Longrightarrow> grows w0 (fst (t500rs_upload_periodic K w s))"
  by (simp add: t500rs_upload_periodic_def split_beta Let_def send_grows split: option.split)

lemma condition_grows: "grows w0 w \<Longrightarrow> grows w0 (fst (t500rs_upload_condition K w s t))"
  by (simp add: t500rs_upload_condition_def split_beta Let_def send_grows)

lemma condition_extended_grows:
  "grows w0 w \<Longrightarrow> grows w0 (fst (t500rs_upload_condition_extended K w s t))"
  by (simp add: t500rs_upload_condition_extended_def send_grows)

lemma inertia_grows: "grows w0 w \<Longrightarrow> grows w0 (fst (t500rs_upload_inertia K w p))"
  by (simp add: t500rs_upload_inertia_def send_grows)

lemma envelope_grows: "grows w0 w \<Longrightarrow> grows w0 (fst (t500rs_upload_envelope K w s))"
  by (simp add: t500rs_upload_envelope_def split_beta Let_def send_grows)

lemma duration_grows: "grows w0 w \<Longrightarrow> grows w0 (fst (t500rs_modify_duration K w s))"
  by (simp add: t500rs_modify_duration_def send_grows)

lemma combined_grows: "grows w0 w \<Longrightarrow> grows w0 (fst (t500rs_upload_combined K w s))"
  by (simp add: t500rs_upload_combined_def send_grows split: option.split)

lemma envelope_if_set_grows:
  "grows w0 (fst r) \<Longrightarrow> grows w0 (fst (upload_envelope_if_set K env s r))"
  by (simp add: upload_envelope_if_set_def split_beta envelope_grows)

lemma upload_switch_grows: "grows w0 w \<Longrightarrow> grows w0 (fst (upload_switch K w s))"
  by (simp add: upload_switch_def Let_def envelope_if_set_grows constant_grows ramp_grows
      periodic_grows condition_grows condition_extended_grows inertia_grows)

lemma upload_effect_grows: "grows w0 w \<Longrightarrow> grows w0 (fst (t500rs_upload_effect K w s))"
  using upload_switch_grows [of w0 w K s]
  by (auto simp: t500rs_upload_effect_def combined_grows duration_grows
      split: prod.split sum.split)

lemma timer_upload_grows: "grows w0 w \<Longrightarrow> grows w0 (fst (timer_upload K w s))"
  by (simp add: timer_upload_def split_beta Let_def upload_effect_grows)

lemma timer_start_grows: "grows w0 w \<Longrightarrow> grows w0 (fst (timer_start K w s))"
  by (simp add: timer_start_def split_beta Let_def t500rs_play_effect_def send_grows)

lemma timer_stop_grows: "grows w0 w \<Longrightarrow> grows w0 (fst (timer_stop K w s))"
  by (simp add: timer_stop_def split_beta Let_def t500rs_stop_effect_def send_grows)

lemma timer_slot_grows: "grows w0 w \<Longrightarrow> grows w0 (fst (timer_slot K now w mc s))"
  by (simp add: timer_slot_def split_beta Let_def timer_upload_grows timer_start_grows
      timer_stop_grows)

lemma timer_loop_grows: "grows w0 w \<Longrightarrow> grows w0 (fst (timer_loop K now w mc ss))"
proof (induction ss arbitrary: w mc)
  case Nil
  then show ?case by simp
next
  case (Cons s ss)
  obtain w1 s1 r where slot: "timer_slot K now w mc s = (w1, s1, r)"
    by (cases "timer_slot K now w mc s") auto
  from timer_slot_grows [OF Cons.prems, of K now mc s] slot have g1: "grows w0 w1"
    by simp
  show ?case
  proof (cases r)
    case (Inl e)
    with slot g1 show ?thesis by simp
  next
    case (Inr mc')
    with slot Cons.IH [OF g1, of mc'] show ?thesis
      by (simp add: split_beta)
  qed
qed

subsection \<open>Flags\<close>

lemma test_bit_set_bit:
  "n < 64 \<Longrightarrow> test_bit m (set_bit n f) = (m = n \<or> test_bit m f)"
  by (auto simp: test_bit_def bit_set_bit_iff)

lemma test_bit_unset_bit:
  "test_bit m (unset_bit n f) = (m \<noteq> n \<and> test_bit m f)"
  by (auto simp: test_bit_def bit_unset_bit_iff)

lemmas flag_nrs = FF_EFFECT_QUEUE_UPLOAD_def FF_EFFECT_QUEUE_START_def
  FF_EFFECT_QUEUE_STOP_def FF_EFFECT_PLAYING_def FF_EFFECT_QUEUE_UPDATE_def

lemmas flag_simps = test_bit_set_bit test_bit_unset_bit flag_nrs

lemma timer_upload_state:
  "fst (snd (timer_upload K w s)) =
     (if test_bit FF_EFFECT_QUEUE_UPLOAD (flags s)
      then s\<lparr>flags := unset_bit FF_EFFECT_QUEUE_UPLOAD (flags s)\<rparr> else s)"
  by (simp add: timer_upload_def split_beta Let_def)

lemma timer_start_state:
  "fst (snd (timer_start K w s)) =
     (if test_bit FF_EFFECT_QUEUE_START (flags s)
      then s\<lparr>flags := set_bit FF_EFFECT_PLAYING (unset_bit FF_EFFECT_QUEUE_START (flags s))\<rparr>
      else s)"
  by (simp add: timer_start_def split_beta Let_def)

lemma timer_stop_state:
  "fst (snd (timer_stop K w s)) =
     (if test_bit FF_EFFECT_QUEUE_STOP (flags s)
      then s\<lparr>flags := unset_bit FF_EFFECT_PLAYING (unset_bit FF_EFFECT_QUEUE_STOP (flags s))\<rparr>
      else s)"
  by (simp add: timer_stop_def split_beta Let_def)

lemma timer_slot_Inr:
  assumes "timer_slot K now w mc s = (w', s', Inr mc')"
  shows "\<exists>w2 w3. s' = fst (snd (timer_stop K w3 (fst (snd (timer_start K w2
            (fst (snd (timer_upload K w (timer_expire now s)))))))))"
  using assms
  by (auto simp: timer_slot_def split_beta Let_def split: if_splits)

lemma timer_slot_completed:
  assumes "timer_slot K now w mc s = (w', s', Inr mc')"
  shows "effect s' = effect (timer_expire now s)"
    and "start_time s' = start_time (timer_expire now s)"
    and "count s' = count (timer_expire now s)"
    and "\<not> test_bit FF_EFFECT_QUEUE_START (flags s')"
    and "\<not> test_bit FF_EFFECT_QUEUE_STOP (flags s')"
    and "test_bit FF_EFFECT_PLAYING (flags s') \<longleftrightarrow>
           \<not> test_bit FF_EFFECT_QUEUE_STOP (flags (timer_expire now s)) \<and>
           (test_bit FF_EFFECT_QUEUE_START (flags (timer_expire now s)) \<or>
            test_bit FF_EFFECT_PLAYING (flags (timer_expire now s)))"
  using timer_slot_Inr [OF assms]
  by (auto simp: timer_upload_state timer_start_state timer_stop_state flag_simps)

lemma timer_expire_fields:
  "effect (timer_expire now s) = effect s"
  "start_time (timer_expire now s) = start_time s"
  "test_bit FF_EFFECT_QUEUE_STOP (flags (timer_expire now s)) =
     test_bit FF_EFFECT_QUEUE_STOP (flags s)"
  by (simp_all add: timer_expire_def Let_def flag_simps)

lemma timer_expire_keeps_start:
  "test_bit FF_EFFECT_QUEUE_START (flags s) \<Longrightarrow>
   test_bit FF_EFFECT_QUEUE_START (flags (timer_expire now s))"
  by (simp add: timer_expire_def Let_def flag_simps)

lemma timer_expire_start_or_playing:
  "test_bit FF_EFFECT_QUEUE_START (flags (timer_expire now s)) \<or>
   test_bit FF_EFFECT_PLAYING (flags (timer_expire now s)) \<Longrightarrow>
   test_bit FF_EFFECT_QUEUE_START (flags s) \<or> test_bit FF_EFFECT_PLAYING (flags s)"
  by (auto simp: timer_expire_def Let_def flag_simps split: if_splits)

subsection \<open>From the tick to the loop body of one slot\<close>

lemma send_effect_zero:
  assumes "t500rs_send_effect K w cid p n = (w', 0)"
  shows "sent w' = sent w @ [t500rs_cmd_header K @ take n p]"
  using assms
  by (auto simp: t500rs_send_effect_def t500rs_send_int_def Let_def ENOMEM_def split: if_splits)

lemma timer_slot_play_sent:
  assumes "timer_slot K now w mc s = (w', s', Inr mc')"
    and "test_bit FF_EFFECT_QUEUE_START (flags s)"
  shows "\<exists>before after. sent w' = sent w @ before @ [t500rs_cmd_header K @ play_params K] @ after"
proof -
  obtain w2 s2 r2 where up: "timer_upload K w (timer_expire now s) = (w2, s2, r2)"
    by (cases "timer_upload K w (timer_expire now s)") auto
  obtain w3 s3 r3 where st: "timer_start K w2 s2 = (w3, s3, r3)"
    by (cases "timer_start K w2 s2") auto
  obtain w4 s4 r4 where sp: "timer_stop K w3 s3 = (w4, s4, r4)"
    by (cases "timer_stop K w3 s3") auto
  from assms(1) up st sp have r: "r2 = 0" "r3 = 0" "r4 = 0" and w4: "w' = w4"
    by (auto simp: timer_slot_def Let_def split: if_splits)
  from timer_upload_grows [OF grows_refl, of w K "timer_expire now s"] up
  obtain a where a: "sent w2 = sent w @ a"
    by (auto simp: grows_def)
  from timer_stop_grows [OF grows_refl, of w3 K s3] sp
  obtain b where b: "sent w4 = sent w3 @ b"
    by (auto simp: grows_def)
  from timer_upload_state [of K w "timer_expire now s"] up
    timer_expire_keeps_start [OF assms(2), of now]
  have "test_bit FF_EFFECT_QUEUE_START (flags s2)"
    by (auto simp: flag_simps split: if_splits)
  with st r(2) have "\<exists>x. t500rs_send_effect K w2 (T500RS_CMD_PLAY K) (play_params K) 8 = (w3, 0)"
    by (auto simp: timer_start_def Let_def t500rs_play_effect_def split: prod.splits)
  then have "sent w3 = sent w2 @ [t500rs_cmd_header K @ take 8 (play_params K)]"
    by (auto dest: send_effect_zero)
  then have "sent w3 = sent w2 @ [t500rs_cmd_header K @ play_params K]"
    by (simp add: play_params_def)
  with a b w4 show ?thesis
    by auto
qed

lemma timer_loop_nth:
  assumes "timer_loop K now w mc ss = (w', ss', Inr mc')" and "i < length ss"
  shows "length ss' = length ss \<and>
         (\<exists>wa mca wb mcb. timer_slot K now wa mca (ss ! i) = (wb, ss' ! i, Inr mcb) \<and>
            grows w wa \<and> grows wb w')"
  using assms
proof (induction ss arbitrary: w mc i ss')
  case Nil
  then show ?case by simp
next
  case (Cons s ss)
  obtain w1 s1 r where slot: "timer_slot K now w mc s = (w1, s1, r)"
    by (cases "timer_slot K now w mc s") auto
  with Cons.prems(1) obtain mc1 where r: "r = Inr mc1"
    by (cases r) auto
  obtain w2 rest r2 where loop: "timer_loop K now w1 mc1 ss = (w2, rest, r2)"
    by (cases "timer_loop K now w1 mc1 ss") auto
  from Cons.prems(1) slot r loop have eq: "w' = w2" "ss' = s1 # rest" "r2 = Inr mc'"
    by auto
  have g1: "grows w w1"
    using timer_slot_grows [OF grows_refl, of w K now mc s] slot by simp
  have g2: "grows w1 w2"
    using timer_loop_grows [OF grows_refl, of w1 K now mc1 ss] loop by simp
  show ?case
  proof (cases i)
    case 0
    from loop eq have loop': "timer_loop K now w1 mc1 ss = (w', rest, Inr mc')"
      by simp
    have "length rest = length ss"
    proof (cases ss)
      case Nil
      with loop' show ?thesis by simp
    next
      case (Cons a list)
      then have "0 < length ss" by simp
      from Cons.IH [OF loop' this] show ?thesis by simp
    qed
    moreover have "timer_slot K now w mc ((s # ss) ! i) = (w1, ss' ! i, Inr mc1)"
      using 0 slot r eq by simp
    moreover have "grows w w" "grows w1 w'"
      using g2 eq grows_refl by simp_all
    ultimately show ?thesis
      using eq by auto
  next
    case (Suc j)
    with Cons.prems(2) have j: "j < length ss" by simp
    from loop eq have loop': "timer_loop K now w1 mc1 ss = (w', rest, Inr mc')"
      by simp
    from Cons.IH [OF loop' j]
    obtain wa mca wb mcb where
      len: "length rest = length ss" and
      sl: "timer_slot K now wa mca (ss ! j) = (wb, rest ! j, Inr mcb)" and
      ga: "grows w1 wa" and gb: "grows wb w'"
      by auto
    from g1 ga have "grows w wa" by (rule grows_trans)
    with sl gb len Suc eq show ?thesis
      by auto
  qed
qed

lemma timer_helper_slot:
  assumes "t500rs_timer_helper K now w t500rs = (w', t500rs', Inr max_count)"
    and "i < T500RS_MAX_EFFECTS" and "i < length (states t500rs)"
  shows "length (states t500rs') = length (states t500rs) \<and>
         (\<exists>wa mca wb mcb.
            timer_slot K now wa mca (states t500rs ! i) = (wb, states t500rs' ! i, Inr mcb) \<and>
            grows w wa \<and> grows wb w')"
proof -
  let ?ss = "take T500RS_MAX_EFFECTS (states t500rs)"
  obtain w1 visited r where loop: "timer_loop K now w 0 ?ss = (w1, visited, r)"
    by (cases "timer_loop K now w 0 ?ss") auto
  with assms(1) obtain mc' where r: "r = Inr mc'" and w1: "w' = w1"
    and st: "states t500rs' = visited @ drop T500RS_MAX_EFFECTS (states t500rs)"
    by (cases r) (auto simp: t500rs_timer_helper_def)
  from assms(2,3) have i: "i < length ?ss" and nth: "?ss ! i = states t500rs ! i"
    by simp_all
  from timer_loop_nth [OF loop [unfolded r] i] nth
  obtain wa mca wb mcb where len: "length visited = length ?ss"
    and sl: "timer_slot K now wa mca (states t500rs ! i) = (wb, visited ! i, Inr mcb)"
    and g: "grows w wa" "grows wb w1"
    by auto
  from len i have "states t500rs' ! i = visited ! i"
    by (simp add: st nth_append)
  moreover from len have "length (states t500rs') = length (states t500rs)"
    by (simp add: st)
  ultimately show ?thesis
    using sl g w1 by auto
qed

subsection \<open>Start, stop and repeat on the tick\<close>

text \<open>
  C2, as amended. On a tick that runs to its end, every slot whose \<open>QUEUE_START\<close> flag
  was set has the flag cleared, has \<open>PLAYING\<close> set unless \<open>QUEUE_STOP\<close> was pending on it
  too (the stop block runs after the start block), keeps its \<open>start_time\<close>, and a play
  command was sent to the device during the tick. The tick does not record the time:
  \<open>start_time\<close> is written by \<open>t500rs_play\<close> alone.
\<close>

theorem tick_consumes_queue_start:
  assumes "t500rs_timer_helper K now w t500rs = (w', t500rs', Inr max_count)"
    and "i < T500RS_MAX_EFFECTS" and "i < length (states t500rs)"
    and "test_bit FF_EFFECT_QUEUE_START (flags (states t500rs ! i))"
  shows "\<not> test_bit FF_EFFECT_QUEUE_START (flags (states t500rs' ! i)) \<and>
         (test_bit FF_EFFECT_PLAYING (flags (states t500rs' ! i)) \<longleftrightarrow>
            \<not> test_bit FF_EFFECT_QUEUE_STOP (flags (states t500rs ! i))) \<and>
         start_time (states t500rs' ! i) = start_time (states t500rs ! i) \<and>
         t500rs_cmd_header K @ play_params K \<in> set (drop (length (sent w)) (sent w'))"
proof -
  let ?s = "states t500rs ! i" and ?s' = "states t500rs' ! i"
  from timer_helper_slot [OF assms(1-3)]
  obtain wa mca wb mcb where
    slot: "timer_slot K now wa mca ?s = (wb, ?s', Inr mcb)" and
    g: "grows w wa" "grows wb w'"
    by auto
  note fin = timer_slot_completed [OF slot]
  have start: "test_bit FF_EFFECT_QUEUE_START (flags (timer_expire now ?s))"
    using assms(4) by (rule timer_expire_keeps_start)
  from timer_slot_play_sent [OF slot assms(4)] g
  obtain a b c d where "sent w' = sent w @ a @ b @ [t500rs_cmd_header K @ play_params K] @ c @ d"
    by (auto simp: grows_def)
  then have "t500rs_cmd_header K @ play_params K \<in> set (drop (length (sent w)) (sent w'))"
    by simp
  with fin start show ?thesis
    by (simp add: timer_expire_fields)
qed

lemma play_state_stop:
  assumes "val \<le> 0"
  shows "play_state now val s = s\<lparr>flags := set_bit FF_EFFECT_QUEUE_STOP (flags s)\<rparr>"
  using assms by (simp add: play_state_def)

text \<open>
  C3, as amended. A playback-change request with a value that is not positive returns
  0 and sets \<open>QUEUE_STOP\<close> in the slot's flags, changing no other flag: a pending
  \<open>QUEUE_START\<close> stays pending. The stop takes precedence on the tick: after the next
  tick that runs to its end the slot has \<open>QUEUE_START\<close>, \<open>QUEUE_STOP\<close> and \<open>PLAYING\<close>
  all clear.
\<close>

theorem stop_request_keeps_queue_start:
  assumes "t500rs_play (Some t500rs) now i val = (Some requested, ret)"
    and "val \<le> 0" and "i < length (states t500rs)"
  shows "ret = 0 \<and>
         flags (states requested ! i) = set_bit FF_EFFECT_QUEUE_STOP (flags (states t500rs ! i)) \<and>
         (test_bit FF_EFFECT_QUEUE_START (flags (states requested ! i)) \<longleftrightarrow>
            test_bit FF_EFFECT_QUEUE_START (flags (states t500rs ! i))) \<and>
         (i < T500RS_MAX_EFFECTS \<and>
          t500rs_timer_helper K now' w requested = (w', t500rs', Inr max_count) \<longrightarrow>
            \<not> test_bit FF_EFFECT_QUEUE_START (flags (states t500rs' ! i)) \<and>
            \<not> test_bit FF_EFFECT_QUEUE_STOP (flags (states t500rs' ! i)) \<and>
            \<not> test_bit FF_EFFECT_PLAYING (flags (states t500rs' ! i)))"
proof -
  let ?s = "states t500rs ! i"
  from assms have ret: "ret = 0"
    and req: "states requested ! i = ?s\<lparr>flags := set_bit FF_EFFECT_QUEUE_STOP (flags ?s)\<rparr>"
    and len: "length (states requested) = length (states t500rs)"
    by (auto simp: t500rs_play_def play_state_stop)
  have stop: "test_bit FF_EFFECT_QUEUE_STOP (flags (states requested ! i))"
    by (simp add: req flag_simps)
  have tick: "\<not> test_bit FF_EFFECT_QUEUE_START (flags (states t500rs' ! i)) \<and>
      \<not> test_bit FF_EFFECT_QUEUE_STOP (flags (states t500rs' ! i)) \<and>
      \<not> test_bit FF_EFFECT_PLAYING (flags (states t500rs' ! i))"
    if "i < T500RS_MAX_EFFECTS"
      and "t500rs_timer_helper K now' w requested = (w', t500rs', Inr max_count)"
  proof -
    from assms(3) len have "i < length (states requested)" by simp
    from timer_helper_slot [OF that(2,1) this]
    obtain wa mca wb mcb where
      slot: "timer_slot K now' wa mca (states requested ! i) = (wb, states t500rs' ! i, Inr mcb)"
      by auto
    from timer_slot_completed [OF slot] stop show ?thesis
      by (simp add: timer_expire_fields)
  qed
  from ret req tick show ?thesis
    by (simp add: flag_simps)
qed

lemma unat_pred:
  fixes c :: ulong
  assumes "unat c = Suc n"
  shows "unat (c - 1) = n" and "c \<noteq> 0"
proof -
  from assms show "c \<noteq> 0" by auto
  then have "unat (c - 1) = unat c - 1"
    by (simp add: unat_minus_one)
  with assms show "unat (c - 1) = n" by simp
qed

text \<open>What one pass of the loop body does to a slot whose duration has elapsed.\<close>

lemma timer_slot_elapsed_step:
  assumes slot: "timer_slot K now w mc s = (w', s', Inr mc')"
    and nostart: "\<not> test_bit FF_EFFECT_QUEUE_START (flags s)"
    and inv: "\<not> test_bit FF_EFFECT_PLAYING (flags s) \<or> unat (count s) = Suc n"
    and len: "replay_length (effect s) \<noteq> 0"
    and elapsed: "ucast (replay_length (effect s)) \<le> now - start_time s"
  shows "\<not> test_bit FF_EFFECT_QUEUE_START (flags s') \<and>
         (\<not> test_bit FF_EFFECT_PLAYING (flags s') \<or> (unat (count s') = n \<and> 0 < n)) \<and>
         effect s' = effect s \<and> start_time s' = start_time s"
proof (cases "test_bit FF_EFFECT_PLAYING (flags s)")
  case False
  with nostart have "timer_expire now s = s"
    by (simp add: timer_expire_def)
  with timer_slot_completed [OF slot] False nostart show ?thesis
    by simp
next
  case True
  with inv have c: "unat (count s) = Suc n" by simp
  note p = unat_pred [OF c]
  from True len elapsed p nostart
  have e: "count (timer_expire now s) = count s - 1"
    "\<not> test_bit FF_EFFECT_PLAYING (flags (timer_expire now s))"
    "test_bit FF_EFFECT_QUEUE_START (flags (timer_expire now s)) \<longleftrightarrow> count s - 1 \<noteq> 0"
    by (simp_all add: timer_expire_def Let_def flag_simps)
  have "count s - 1 \<noteq> 0 \<longleftrightarrow> 0 < n"
    using p(1) unat_gt_0 [of "count s - 1"] by (simp only:)
  with timer_slot_completed [OF slot] e p show ?thesis
    by (auto simp: timer_expire_fields)
qed

lemma run_ticks_elapsed:
  assumes "run_ticks K nows w t500rs = Some (w', t500rs')"
    and "i < T500RS_MAX_EFFECTS" and "i < length (states t500rs)"
    and "\<not> test_bit FF_EFFECT_QUEUE_START (flags (states t500rs ! i))"
    and "\<not> test_bit FF_EFFECT_PLAYING (flags (states t500rs ! i)) \<or>
         (unat (count (states t500rs ! i)) = length nows \<and> 0 < length nows)"
    and "replay_length (effect (states t500rs ! i)) \<noteq> 0"
    and "\<forall>now \<in> set nows. ucast (replay_length (effect (states t500rs ! i)))
           \<le> now - start_time (states t500rs ! i)"
  shows "\<not> test_bit FF_EFFECT_PLAYING (flags (states t500rs' ! i)) \<and>
         \<not> test_bit FF_EFFECT_QUEUE_START (flags (states t500rs' ! i))"
  using assms
proof (induction nows arbitrary: w t500rs)
  case Nil
  then show ?case by simp
next
  case (Cons now nows)
  obtain w1 t1 r where tick: "t500rs_timer_helper K now w t500rs = (w1, t1, r)"
    by (cases "t500rs_timer_helper K now w t500rs") auto
  with Cons.prems(1) obtain mc where r: "r = Inr mc"
    and rest: "run_ticks K nows w1 t1 = Some (w', t500rs')"
    by (cases r) auto
  let ?s = "states t500rs ! i" and ?s1 = "states t1 ! i"
  from timer_helper_slot [OF tick [unfolded r] Cons.prems(2,3)]
  obtain wa mca wb mcb where len: "length (states t1) = length (states t500rs)"
    and slot: "timer_slot K now wa mca ?s = (wb, ?s1, Inr mcb)"
    by auto
  from Cons.prems(5)
  have inv: "\<not> test_bit FF_EFFECT_PLAYING (flags ?s) \<or> unat (count ?s) = Suc (length nows)"
    by auto
  from Cons.prems(7)
  have now: "ucast (replay_length (effect ?s)) \<le> now - start_time ?s"
    and later: "\<forall>t \<in> set nows. ucast (replay_length (effect ?s)) \<le> t - start_time ?s"
    by simp_all
  from timer_slot_elapsed_step [OF slot Cons.prems(4) inv Cons.prems(6) now]
  have step: "\<not> test_bit FF_EFFECT_QUEUE_START (flags ?s1)"
    "\<not> test_bit FF_EFFECT_PLAYING (flags ?s1) \<or>
       (unat (count ?s1) = length nows \<and> 0 < length nows)"
    "effect ?s1 = effect ?s" "start_time ?s1 = start_time ?s"
    by auto
  from Cons.prems(3) len have i1: "i < length (states t1)" by simp
  show ?case
    using Cons.IH [OF rest Cons.prems(2) i1 step(1,2)] Cons.prems(6) later step(3,4)
    by simp
qed

text \<open>
  C7, as amended. For a slot with \<open>PLAYING\<close> set, no \<open>QUEUE_START\<close> pending, a nonzero
  duration and \<open>count = k > 0\<close>: after \<open>k\<close> ticks that run to their end, at each of which
  the duration has elapsed since \<open>start_time\<close>, the slot has \<open>PLAYING\<close> clear and no
  \<open>QUEUE_START\<close> pending.
\<close>

theorem repeats_end_after_count_expiries:
  assumes "run_ticks K nows w t500rs = Some (w', t500rs')"
    and "i < T500RS_MAX_EFFECTS" and "i < length (states t500rs)"
    and "test_bit FF_EFFECT_PLAYING (flags (states t500rs ! i))"
    and "\<not> test_bit FF_EFFECT_QUEUE_START (flags (states t500rs ! i))"
    and "replay_length (effect (states t500rs ! i)) \<noteq> 0"
    and "count (states t500rs ! i) \<noteq> 0"
    and "length nows = unat (count (states t500rs ! i))"
    and "\<forall>now \<in> set nows. ucast (replay_length (effect (states t500rs ! i)))
           \<le> now - start_time (states t500rs ! i)"
  shows "\<not> test_bit FF_EFFECT_PLAYING (flags (states t500rs' ! i)) \<and>
         \<not> test_bit FF_EFFECT_QUEUE_START (flags (states t500rs' ! i))"
proof -
  from assms(7,8) have "unat (count (states t500rs ! i)) = length nows \<and> 0 < length nows"
    by (simp add: unat_gt_0)
  then have "\<not> test_bit FF_EFFECT_PLAYING (flags (states t500rs ! i)) \<or>
      (unat (count (states t500rs ! i)) = length nows \<and> 0 < length nows)"
    by simp
  from run_ticks_elapsed [OF assms(1,2,3,5) this assms(6,9)] show ?thesis .
qed

subsection \<open>Concrete runs\<close>

lemma timer_slot_idle:
  assumes "flags s = 0" and "count s = 0"
  shows "timer_slot K now w mc s = (w, s, Inr mc)"
  using assms
  by (simp add: timer_slot_def timer_expire_def timer_upload_def timer_start_def
      timer_stop_def update_max_count_def test_bit_def)

lemma timer_loop_idle:
  assumes "\<forall>s \<in> set ss. flags s = 0 \<and> count s = 0"
  shows "timer_loop K now w mc ss = (w, ss, Inr mc)"
  using assms by (induction ss) (simp_all add: timer_slot_idle)

lemma timer_helper_ex_device:
  "t500rs_timer_helper K now w (ex_device s) =
     (case timer_slot K now w 0 s of
        (w', s', r) \<Rightarrow> (w', ex_device s', map_sum (\<lambda>ret. ret) sint r))"
proof -
  have idle: "\<forall>s \<in> set (replicate 15 ex_state). flags s = 0 \<and> count s = 0"
    by (simp add: ex_state_def)
  obtain w' s' r where slot: "timer_slot K now w 0 s = (w', s', r)"
    by (cases "timer_slot K now w 0 s") auto
  have "timer_loop K now w 0 (s # replicate 15 ex_state) = (w', s' # replicate 15 ex_state, r)"
    by (cases r) (simp_all add: slot timer_loop_idle [OF idle])
  then show ?thesis
    by (simp add: t500rs_timer_helper_def ex_device_def T500RS_MAX_EFFECTS_def slot)
qed

lemma ex_device_slot0: "states (ex_device s) ! 0 = s"
  by (simp add: ex_device_def)

lemma ex_slot_start:
  "timer_slot ex_consts 100 ex_world 0 (ex_state\<lparr>flags := 2, start_time := 7\<rparr>)
   = (\<lparr>outcomes = [], sent = [[0x60, 0, 0, 0, 0, 0, 0x41, 0, 0x41, 1]]\<rparr>,
      ex_state\<lparr>flags := 8, start_time := 7\<rparr>, Inr 0)"
  by code_simp

lemma ex_slot_stop:
  "timer_slot ex_consts 9 ex_world 0 (ex_state\<lparr>flags := 6\<rparr>)
   = (\<lparr>outcomes = [], sent = [[0x60, 0, 0, 0, 0, 0, 0x41, 0, 0x41, 1],
                                  [0x60, 0, 0, 0, 0, 0, 0x41, 0, 0, 1]]\<rparr>,
      ex_state, Inr 0)"
  by code_simp

lemma ex_slot_pending:
  "timer_slot ex_consts 10 ex_world 0
     (ex_state\<lparr>effect := ex_effect\<lparr>replay_length := 5\<rparr>, flags := 10, count := 1\<rparr>)
   = (\<lparr>outcomes = [], sent = [[0x60, 0, 0, 0, 0, 0, 0x41, 0, 0x41, 1]]\<rparr>,
      ex_state\<lparr>effect := ex_effect\<lparr>replay_length := 5\<rparr>, flags := 8\<rparr>, Inr 0)"
  by code_simp

lemma ex_slot_first:
  "timer_slot ex_consts 10 ex_world 0
     (ex_state\<lparr>effect := ex_effect\<lparr>replay_length := 5\<rparr>, flags := 8, count := 2\<rparr>)
   = (\<lparr>outcomes = [], sent = [[0x60, 0, 0, 0, 0, 0, 0x41, 0, 0x41, 1]]\<rparr>,
      ex_state\<lparr>effect := ex_effect\<lparr>replay_length := 5\<rparr>, flags := 8, count := 1\<rparr>, Inr 1)"
  by code_simp

lemma ex_slot_second:
  "timer_slot ex_consts 20 \<lparr>outcomes = [], sent = [[0x60, 0, 0, 0, 0, 0, 0x41, 0, 0x41, 1]]\<rparr> 0
     (ex_state\<lparr>effect := ex_effect\<lparr>replay_length := 5\<rparr>, flags := 8, count := 1\<rparr>)
   = (\<lparr>outcomes = [], sent = [[0x60, 0, 0, 0, 0, 0, 0x41, 0, 0x41, 1]]\<rparr>,
      ex_state\<lparr>effect := ex_effect\<lparr>replay_length := 5\<rparr>\<rparr>, Inr 0)"
  by code_simp

lemma ex_tick_start:
  "t500rs_timer_helper ex_consts 100 ex_world (ex_device (ex_state\<lparr>flags := 2, start_time := 7\<rparr>))
   = (\<lparr>outcomes = [], sent = [[0x60, 0, 0, 0, 0, 0, 0x41, 0, 0x41, 1]]\<rparr>,
      ex_device (ex_state\<lparr>flags := 8, start_time := 7\<rparr>), Inr 0)"
  by (simp add: timer_helper_ex_device ex_slot_start)

text \<open>
  C2 as stated fails: a tick at time 100 over a slot with \<open>QUEUE_START\<close> set and
  \<open>start_time = 7\<close> runs to its end and leaves \<open>start_time\<close> at 7.
\<close>

theorem tick_leaves_start_time:
  "snd (snd (t500rs_timer_helper ex_consts 100 ex_world
      (ex_device (ex_state\<lparr>flags := 2, start_time := 7\<rparr>)))) = Inr 0 \<and>
   test_bit FF_EFFECT_QUEUE_START (flags (ex_state\<lparr>flags := 2, start_time := 7\<rparr>)) \<and>
   start_time (states (fst (snd (t500rs_timer_helper ex_consts 100 ex_world
      (ex_device (ex_state\<lparr>flags := 2, start_time := 7\<rparr>))))) ! 0) \<noteq> 100"
  by (simp add: ex_tick_start ex_device_slot0 test_bit_def FF_EFFECT_QUEUE_START_def)

theorem tick_consumes_queue_start_witness:
  "\<not> test_bit FF_EFFECT_QUEUE_START
       (flags (states (ex_device (ex_state\<lparr>flags := 8, start_time := 7\<rparr>)) ! 0)) \<and>
   (test_bit FF_EFFECT_PLAYING
       (flags (states (ex_device (ex_state\<lparr>flags := 8, start_time := 7\<rparr>)) ! 0)) \<longleftrightarrow>
    \<not> test_bit FF_EFFECT_QUEUE_STOP
       (flags (states (ex_device (ex_state\<lparr>flags := 2, start_time := 7\<rparr>)) ! 0))) \<and>
   start_time (states (ex_device (ex_state\<lparr>flags := 8, start_time := 7\<rparr>)) ! 0) =
     start_time (states (ex_device (ex_state\<lparr>flags := 2, start_time := 7\<rparr>)) ! 0) \<and>
   t500rs_cmd_header ex_consts @ play_params ex_consts \<in>
     set (drop (length (sent ex_world))
       (sent \<lparr>outcomes = [], sent = [[0x60, 0, 0, 0, 0, 0, 0x41, 0, 0x41, 1]]\<rparr>))"
proof -
  have i: "0 < T500RS_MAX_EFFECTS"
    "0 < length (states (ex_device (ex_state\<lparr>flags := 2, start_time := 7\<rparr>)))"
    by (simp_all add: T500RS_MAX_EFFECTS_def ex_device_def)
  have q: "test_bit FF_EFFECT_QUEUE_START
      (flags (states (ex_device (ex_state\<lparr>flags := 2, start_time := 7\<rparr>)) ! 0))"
    by code_simp
  show ?thesis
    by (rule tick_consumes_queue_start [OF ex_tick_start i q])
qed

lemma ex_play_stop:
  "t500rs_play (Some (ex_device (ex_state\<lparr>flags := 2\<rparr>))) 5 0 0 =
     (Some (ex_device (ex_state\<lparr>flags := 6\<rparr>)), 0)"
  by code_simp

lemma ex_tick_stop:
  "t500rs_timer_helper ex_consts 9 ex_world (ex_device (ex_state\<lparr>flags := 6\<rparr>))
   = (\<lparr>outcomes = [], sent = [[0x60, 0, 0, 0, 0, 0, 0x41, 0, 0x41, 1],
                                  [0x60, 0, 0, 0, 0, 0, 0x41, 0, 0, 1]]\<rparr>,
      ex_device ex_state, Inr 0)"
  by (simp add: timer_helper_ex_device ex_slot_stop)

text \<open>
  C3 as stated fails: on a slot with \<open>QUEUE_START\<close> pending, a request with value 0
  leaves \<open>QUEUE_START\<close> set (the flags go from 2 to 6).
\<close>

theorem stop_request_leaves_queue_start:
  "test_bit FF_EFFECT_QUEUE_START (flags (states (ex_device (ex_state\<lparr>flags := 2\<rparr>)) ! 0)) \<and>
   t500rs_play (Some (ex_device (ex_state\<lparr>flags := 2\<rparr>))) 5 0 0 =
     (Some (ex_device (ex_state\<lparr>flags := 6\<rparr>)), 0) \<and>
   test_bit FF_EFFECT_QUEUE_START (flags (states (ex_device (ex_state\<lparr>flags := 6\<rparr>)) ! 0))"
  by code_simp

theorem stop_request_keeps_queue_start_witness:
  "flags (states (ex_device (ex_state\<lparr>flags := 6\<rparr>)) ! 0) =
     set_bit FF_EFFECT_QUEUE_STOP (flags (states (ex_device (ex_state\<lparr>flags := 2\<rparr>)) ! 0)) \<and>
   \<not> test_bit FF_EFFECT_QUEUE_START (flags (states (ex_device ex_state) ! 0)) \<and>
   \<not> test_bit FF_EFFECT_QUEUE_STOP (flags (states (ex_device ex_state) ! 0)) \<and>
   \<not> test_bit FF_EFFECT_PLAYING (flags (states (ex_device ex_state) ! 0))"
proof -
  have v: "(0::int) \<le> 0" by simp
  have i: "0 < length (states (ex_device (ex_state\<lparr>flags := 2\<rparr>)))"
    by (simp add: ex_device_def)
  have t: "0 < T500RS_MAX_EFFECTS \<and>
      t500rs_timer_helper ex_consts 9 ex_world (ex_device (ex_state\<lparr>flags := 6\<rparr>)) =
        (\<lparr>outcomes = [], sent = [[0x60, 0, 0, 0, 0, 0, 0x41, 0, 0x41, 1],
                                  [0x60, 0, 0, 0, 0, 0, 0x41, 0, 0, 1]]\<rparr>,
         ex_device ex_state, Inr 0)"
    using ex_tick_stop by (simp add: T500RS_MAX_EFFECTS_def)
  note th = stop_request_keeps_queue_start [OF ex_play_stop v i]
  from th [THEN conjunct2, THEN conjunct1]
    th [THEN conjunct2, THEN conjunct2, THEN conjunct2, THEN mp, OF t]
  show ?thesis
    by (rule conjI)
qed

text \<open>
  C7 as stated fails: a slot with \<open>PLAYING\<close> set, duration 5, \<open>count = 1\<close> and a
  \<open>QUEUE_START\<close> still pending has \<open>PLAYING\<close> set again after the one tick at which its
  duration has elapsed.
\<close>

theorem pending_start_replays_after_last_expiry:
  "test_bit FF_EFFECT_PLAYING (flags (ex_state\<lparr>effect := ex_effect\<lparr>replay_length := 5\<rparr>,
       flags := 10, count := 1\<rparr>)) \<and>
   map_option (\<lambda>(w', t'). test_bit FF_EFFECT_PLAYING (flags (states t' ! 0)))
     (run_ticks ex_consts [10] ex_world
        (ex_device (ex_state\<lparr>effect := ex_effect\<lparr>replay_length := 5\<rparr>, flags := 10, count := 1\<rparr>)))
     = Some True"
  by (simp add: timer_helper_ex_device ex_slot_pending ex_device_slot0 test_bit_def
      FF_EFFECT_PLAYING_def)

lemma ex_run_two:
  "run_ticks ex_consts [10, 20] ex_world
     (ex_device (ex_state\<lparr>effect := ex_effect\<lparr>replay_length := 5\<rparr>, flags := 8, count := 2\<rparr>))
   = Some (\<lparr>outcomes = [], sent = [[0x60, 0, 0, 0, 0, 0, 0x41, 0, 0x41, 1]]\<rparr>,
           ex_device (ex_state\<lparr>effect := ex_effect\<lparr>replay_length := 5\<rparr>\<rparr>))"
  by (simp add: timer_helper_ex_device ex_slot_first ex_slot_second)

theorem repeats_end_after_count_expiries_witness:
  "\<not> test_bit FF_EFFECT_PLAYING
       (flags (states (ex_device (ex_state\<lparr>effect := ex_effect\<lparr>replay_length := 5\<rparr>\<rparr>)) ! 0)) \<and>
   \<not> test_bit FF_EFFECT_QUEUE_START
       (flags (states (ex_device (ex_state\<lparr>effect := ex_effect\<lparr>replay_length := 5\<rparr>\<rparr>)) ! 0))"
proof -
  let ?s = "ex_state\<lparr>effect := ex_effect\<lparr>replay_length := 5\<rparr>, flags := 8, count := 2\<rparr>"
  have s: "states (ex_device ?s) ! 0 = ?s"
    by (simp add: ex_device_def)
  have i: "0 < T500RS_MAX_EFFECTS" "0 < length (states (ex_device ?s))"
    by (simp_all add: T500RS_MAX_EFFECTS_def ex_device_def)
  have f: "test_bit FF_EFFECT_PLAYING (flags (states (ex_device ?s) ! 0))"
    "\<not> test_bit FF_EFFECT_QUEUE_START (flags (states (ex_device ?s) ! 0))"
    unfolding s by code_simp+
  have l: "replay_length (effect (states (ex_device ?s) ! 0)) \<noteq> 0"
    "count (states (ex_device ?s) ! 0) \<noteq> 0"
    "length [10, 20 :: ulong] = unat (count (states (ex_device ?s) ! 0))"
    unfolding s by simp_all
  have e: "\<forall>now \<in> set [10, 20 :: ulong].
      ucast (replay_length (effect (states (ex_device ?s) ! 0)))
        \<le> now - start_time (states (ex_device ?s) ! 0)"
    unfolding s by (simp add: ex_state_def)
  show ?thesis
    by (rule repeats_end_after_count_expiries [OF ex_run_two i f l e])
qed

lemma ex_slot_nomem:
  "timer_slot ex_consts 100 (ex_world\<lparr>outcomes := [Outcome False True True]\<rparr>) 0
     (ex_state\<lparr>flags := 2\<rparr>)
   = (ex_world, ex_state\<lparr>flags := 8\<rparr>, Inl (- ENOMEM))"
  by code_simp

lemma ex_slot_inval:
  "timer_slot ex_consts 100 ex_world 0
     (ex_state\<lparr>effect := ex_effect\<lparr>type := FF_PERIODIC,
       u_periodic := (u_periodic ex_effect)\<lparr>period := 100\<rparr>\<rparr>, flags := 1\<rparr>)
   = (ex_world, ex_state\<lparr>effect := ex_effect\<lparr>type := FF_PERIODIC,
       u_periodic := (u_periodic ex_effect)\<lparr>period := 100\<rparr>\<rparr>\<rparr>, Inl (- EINVAL))"
  by code_simp

text \<open>
  C4 as stated fails. With the device lookup succeeding and the allocation failing, the
  tick over a slot with \<open>QUEUE_START\<close> set takes the failure branch of its start block
  and returns \<open>-ENOMEM\<close>; with every allocation and lookup succeeding, a queued upload
  of a descriptor of type \<open>FF_PERIODIC\<close> (period 100) takes the failure branch of the
  upload block with \<open>-EINVAL\<close>; and \<open>t500rs_send_effect\<close> returns \<open>-1\<close>, which is no allocation error,
  when the allocation succeeds and the lookup fails.
\<close>

theorem send_failure_branches_reached:
  "lookups_ok (ex_world\<lparr>outcomes := [Outcome False True True]\<rparr>) \<and>
   snd (snd (t500rs_timer_helper ex_consts 100
          (ex_world\<lparr>outcomes := [Outcome False True True]\<rparr>)
          (ex_device (ex_state\<lparr>flags := 2\<rparr>)))) = Inl (- ENOMEM) \<and>
   all_ok ex_world \<and>
   snd (snd (t500rs_timer_helper ex_consts 100 ex_world
          (ex_device (ex_state\<lparr>effect := ex_effect\<lparr>type := FF_PERIODIC,
       u_periodic := (u_periodic ex_effect)\<lparr>period := 100\<rparr>\<rparr>, flags := 1\<rparr>))))
     = Inl (- EINVAL) \<and>
   snd (t500rs_send_effect ex_consts (ex_world\<lparr>outcomes := [Outcome True False True]\<rparr>)
          0 [1, 2] 2) = - 1"
proof -
  have "lookups_ok (ex_world\<lparr>outcomes := [Outcome False True True]\<rparr>)" "all_ok ex_world"
    by (simp_all add: lookups_ok_def all_ok_def ex_world_def)
  moreover have "snd (t500rs_send_effect ex_consts
      (ex_world\<lparr>outcomes := [Outcome True False True]\<rparr>) 0 [1, 2] 2) = - 1"
    by (simp add: t500rs_send_effect_def t500rs_send_int_def next_outcome_def)
  ultimately show ?thesis
    by (simp add: timer_helper_ex_device ex_slot_nomem ex_slot_inval)
qed

theorem transfer_outcome_unobserved_witness:
  "snd (t500rs_send_int (Outcome True True False)
          (ex_world\<lparr>outcomes := [Outcome True True False]\<rparr>) []) = 0 \<and>
   snd (t500rs_send_effect ex_consts (ex_world\<lparr>outcomes := [Outcome True True False]\<rparr>)
          0 [1, 2] 2) = 0 \<and>
   snd (snd (timer_start ex_consts (ex_world\<lparr>outcomes := [Outcome True True False]\<rparr>)
          ex_state)) = 0 \<and>
   snd (snd (timer_stop ex_consts (ex_world\<lparr>outcomes := [Outcome True True False]\<rparr>)
          ex_state)) = 0 \<and>
   snd (t500rs_upload_effect ex_consts (ex_world\<lparr>outcomes := [Outcome True True False]\<rparr>)
          ex_state) \<in> {0, - EINVAL} \<and>
   snd (snd (t500rs_timer_helper ex_consts 100
          (ex_world\<lparr>outcomes := [Outcome True True False]\<rparr>)
          (ex_device (ex_state\<lparr>flags := 2\<rparr>)))) \<noteq> Inl (- ENOMEM) \<and>
   snd (snd (t500rs_timer_helper ex_consts 100
          (ex_world\<lparr>outcomes := [Outcome True True False]\<rparr>)
          (ex_device (ex_state\<lparr>flags := 2\<rparr>)))) \<noteq> Inl (- 1)"
proof -
  let ?w = "ex_world\<lparr>outcomes := [Outcome True True False]\<rparr>"
  have d: "get_device_ok (Outcome True True False)" by simp
  have n: "get_device_ok (next_outcome ?w)" "kzalloc_ok (next_outcome ?w)"
    by (simp_all add: next_outcome_def)
  have l: "lookups_ok ?w"
    by (simp add: lookups_ok_def)
  have a: "all_ok ?w"
    by (simp add: all_ok_def)
  note th = transfer_outcome_unobserved [of "Outcome True True False" ?w "[]" True True
      ex_consts 0 "[1, 2]" 2 ex_state 100 "ex_device (ex_state\<lparr>flags := 2\<rparr>)"]
  note found = th [THEN conjunct2, THEN conjunct2, THEN conjunct2, THEN conjunct1, THEN mp, OF l]
  note tick = th [THEN conjunct2, THEN conjunct2, THEN conjunct2, THEN conjunct2, THEN mp, OF a]
  have "snd (snd (t500rs_timer_helper ex_consts 100 ?w (ex_device (ex_state\<lparr>flags := 2\<rparr>))))
      \<noteq> Inl (- ENOMEM)"
    using tick by (auto simp: ENOMEM_def EINVAL_def)
  moreover have "snd (snd (t500rs_timer_helper ex_consts 100 ?w
      (ex_device (ex_state\<lparr>flags := 2\<rparr>)))) \<noteq> Inl (- 1)"
    using found by (auto simp: ENOMEM_def EINVAL_def)
  moreover have "snd (t500rs_send_effect ex_consts ?w 0 [1, 2] 2) = 0"
    using th [THEN conjunct2, THEN conjunct2, THEN conjunct1] n by simp
  ultimately show ?thesis
    using th [THEN conjunct1, THEN mp, OF d] tick by simp
qed

subsection \<open>Layout of the combined-effect payload\<close>

lemma pack_effect_below: "j < 8 + i * 3 \<Longrightarrow> pack_effect c i p ! j = p ! j"
  by (simp add: pack_effect_def Let_def)

lemma pack_effect_own:
  assumes "10 + i * 3 < length p" and "dynamic_weights c"
  shows "pack_effect c i p ! (8 + i * 3) = effect_ids c ! i"
    and "pack_effect c i p ! (9 + i * 3) = weights c ! i"
    and "pack_effect c i p ! (10 + i * 3) =
           (min_weights c ! i AND 0xF0) OR (drop_bit 4 (max_weights c ! i) AND 0x0F)"
  using assms by (simp_all add: pack_effect_def Let_def)

lemma fold_pack_below:
  "j < 8 \<Longrightarrow> fold (pack_effect c) [0 ..< n] p ! j = p ! j"
  by (induction n) (simp_all add: pack_effect_below)

lemma fold_pack_own:
  assumes "i < n" and "10 + (n - 1) * 3 < length p" and "dynamic_weights c"
  shows "fold (pack_effect c) [0 ..< n] p ! (8 + i * 3) = effect_ids c ! i \<and>
         fold (pack_effect c) [0 ..< n] p ! (9 + i * 3) = weights c ! i \<and>
         fold (pack_effect c) [0 ..< n] p ! (10 + i * 3) =
           (min_weights c ! i AND 0xF0) OR (drop_bit 4 (max_weights c ! i) AND 0x0F)"
  using assms
proof (induction n)
  case 0
  then show ?case by simp
next
  case (Suc n)
  let ?q = "fold (pack_effect c) [0 ..< n] p"
  have len: "length ?q = length p"
    by (rule length_fold_pack)
  show ?case
  proof (cases "i = n")
    case True
    with Suc.prems len show ?thesis
      by (simp add: pack_effect_own)
  next
    case False
    with Suc.prems have i: "i < n" and l: "10 + (n - 1) * 3 < length p"
      by auto
    from i have "8 + i * 3 < 8 + n * 3" "9 + i * 3 < 8 + n * 3" "10 + i * 3 < 8 + n * 3"
      by auto
    with Suc.IH [OF i l Suc.prems(3)] show ?thesis
      by (simp add: pack_effect_below)
  qed
qed

text \<open>With dynamic weights the payload is laid out as the claim describes.\<close>

lemma dynamic_payload_layout:
  assumes "dynamic_weights c" and "unat (num_effects c) \<le> T500RS_MAX_COMBINED_EFFECTS"
    and "i < unat (num_effects c)"
  shows "take 8 (combined_payload c) = combined_header c \<and>
         combined_payload c ! (8 + i * 3) = effect_ids c ! i \<and>
         combined_payload c ! (9 + i * 3) = weights c ! i \<and>
         combined_payload c ! (10 + i * 3) =
           (min_weights c ! i AND 0xF0) OR (drop_bit 4 (max_weights c ! i) AND 0x0F)"
proof -
  let ?n = "unat (num_effects c)"
  let ?p0 = "combined_header c @ replicate (T500RS_MAX_COMBINED_EFFECTS * 3) 0"
  have hl: "length (combined_header c) = 8"
    by (simp add: combined_header_def)
  have len0: "length ?p0 = 56"
    by (simp add: combined_header_def T500RS_MAX_COMBINED_EFFECTS_def)
  from assms(2,3) have "10 + (?n - 1) * 3 < length ?p0"
    unfolding len0 by (simp add: T500RS_MAX_COMBINED_EFFECTS_def)
  from fold_pack_own [OF assms(3) this assms(1)]
  have own: "combined_params c ! (8 + i * 3) = effect_ids c ! i"
    "combined_params c ! (9 + i * 3) = weights c ! i"
    "combined_params c ! (10 + i * 3) =
       (min_weights c ! i AND 0xF0) OR (drop_bit 4 (max_weights c ! i) AND 0x0F)"
    by (simp_all add: combined_params_def)
  have size: "combined_params_size c = 8 + ?n * 3"
    using assms(1) by (simp add: combined_params_size_def)
  have lenp: "length (combined_params c) = 56"
    unfolding combined_params_def length_fold_pack by (rule len0)
  have "take 8 (combined_payload c) = take 8 (combined_params c)"
    by (simp add: combined_payload_def size min_def)
  also have "\<dots> = take 8 ?p0"
  proof (rule nth_equalityI)
    show "length (take 8 (combined_params c)) = length (take 8 ?p0)"
      by (simp only: length_take lenp len0)
    fix j
    assume "j < length (take 8 (combined_params c))"
    then have j: "j < 8"
      by (simp add: lenp)
    then have "combined_params c ! j = ?p0 ! j"
      unfolding combined_params_def by (rule fold_pack_below)
    with j show "take 8 (combined_params c) ! j = take 8 ?p0 ! j"
      by (simp only: nth_take)
  qed
  also have "\<dots> = combined_header c"
    using hl by simp
  finally have hdr: "take 8 (combined_payload c) = combined_header c" .
  from assms(3) have "8 + i * 3 < 8 + ?n * 3" "9 + i * 3 < 8 + ?n * 3" "10 + i * 3 < 8 + ?n * 3"
    by auto
  with own hdr show ?thesis
    by (simp add: combined_payload_def size)
qed

text \<open>
  C6. Without dynamic weights the constituents are still written three bytes apart
  while only \<open>8 + 2n\<close> bytes are sent. For two constituents with ids 1, 2 and weights
  10, 20 the payload after the header is \<open>1, 10, 0, 2\<close>: a zero byte follows the first
  weight and the second weight is not sent, where the claim has \<open>1, 10, 2, 20\<close>.
\<close>

theorem static_payload_misplaces_constituents:
  "t500rs_upload_combined ex_consts ex_world (ex_state\<lparr>combined := Some (ex_combined False)\<rparr>) =
     (\<lparr>outcomes = [], sent = [[0x60, 0, 15, 0, 0, 0, 5, 14, 2, 0, 1, 10, 0, 2]]\<rparr>, 0)"
  by code_simp

end
